theory Spec2Isabelle
  imports Main "HOL-Library.Sublist"
begin

section \<open>TypedAPI adapter: contract validation over extracted contract descriptions\<close>

text \<open>
  A shallow embedding of \<^verbatim>\<open>src/TypedAPIAdapter.ts\<close>. The adapter reads a contract file,
  finds the top-level declaration named \<^verbatim>\<open>Contract\<close> in the file's syntax tree, turns its
  object literal into a dynamically typed value and runs rule-based checks over that value.

  Conventions of the model:
  \<^item> a JavaScript value is a \<open>jsval\<close>. An object \<open>JObj kvs\<close> is the association list of
    its own enumerable properties in the order \<^verbatim>\<open>Object.keys\<close> lists them, and its
    prototype is \<^verbatim>\<open>Object.prototype\<close>; \<open>JObjProto p kvs\<close> is an object whose prototype
    has been set to \<open>p\<close>, an object or \<^verbatim>\<open>null\<close>, by an assignment to the name
    \<^verbatim>\<open>__proto__\<close>. A property read follows the chain of prototypes. Of the built-in
    prototypes at the end of a chain the model keeps the names of their members: the adapter
    reads such a member only to test it against \<^verbatim>\<open>undefined\<close> or for truthiness;
  \<^item> a number is \<^verbatim>\<open>NaN\<close> or \<open>Num i\<close>, the double nearest to the integer \<open>i\<close>: the
    code computes only with the results of \<^verbatim>\<open>parseInt\<close> and with status codes, which it
    compares with integers below \<open>2^53\<close>, and with other numbers it does nothing beyond
    testing them for truthiness and printing them;
  \<^item> a string is a list of 8-bit characters (the ASCII range of a JavaScript string);
  \<^item> an exception is a value: a fallible step returns \<open>js_error + 'a\<close>, with the message
    Node.js (V8) gives the error;
  \<^item> the file system, the \<^verbatim>\<open>path\<close> module, the TypeScript parser and two conversions
    of the JavaScript runtime, the printing of a number and the conversion of an object to a
    string, are parameters, collected in the record \<open>env\<close>; console output is not
    represented.
\<close>

subsection \<open>Values\<close>

datatype jsnum = NaN | Num int

datatype jsval =
    JUndefined
  | JNull
  | JBool bool
  | JNum jsnum
  | JStr string
  | JArr "jsval list"
  | JObj "(string \<times> jsval) list"
  | JObjProto jsval "(string \<times> jsval) list"

datatype js_error =
    TypeErrorReadProperty string string
  | TypeErrorNotFunction string
  | TypeErrorDestructure string string string
  | TypeErrorToPrimitive
  | Error string

text \<open>The \<^verbatim>\<open>message\<close> of an error, as V8 words it.\<close>

fun message :: "js_error \<Rightarrow> string" where
  "message (TypeErrorReadProperty base prop) =
     ''Cannot read properties of '' @ base @ '' (reading '' @ [CHR 0x27] @ prop @ [CHR 0x27] @ '')''"
| "message (TypeErrorNotFunction what) = what @ '' is not a function''"
| "message (TypeErrorDestructure prop source base) =
     ''Cannot destructure property '' @ [CHR 0x27] @ prop @ [CHR 0x27] @ '' of '' @ [CHR 0x27] @ source
     @ [CHR 0x27] @ '' as it is '' @ base @ ''.''"
| "message TypeErrorToPrimitive = ''Cannot convert object to primitive value''"
| "message (Error m) = m"

text \<open>Truthiness: what \<^verbatim>\<open>!v\<close> and \<^verbatim>\<open>v && ...\<close> test.\<close>

fun truthy :: "jsval \<Rightarrow> bool" where
  "truthy JUndefined = False"
| "truthy JNull = False"
| "truthy (JBool b) = b"
| "truthy (JNum NaN) = False"
| "truthy (JNum (Num i)) = (i \<noteq> 0)"
| "truthy (JStr s) = (s \<noteq> [])"
| "truthy (JArr xs) = True"
| "truthy (JObj kvs) = True"
| "truthy (JObjProto p kvs) = True"

fun typeof :: "jsval \<Rightarrow> string" where
  "typeof JUndefined = ''undefined''"
| "typeof JNull = ''object''"
| "typeof (JBool b) = ''boolean''"
| "typeof (JNum n) = ''number''"
| "typeof (JStr s) = ''string''"
| "typeof (JArr xs) = ''object''"
| "typeof (JObj kvs) = ''object''"
| "typeof (JObjProto p kvs) = ''object''"

fun isArray :: "jsval \<Rightarrow> bool" where
  "isArray (JArr xs) = True"
| "isArray v = False"

subsection \<open>Numbers and strings\<close>

definition digitChar :: "nat \<Rightarrow> char" where
  "digitChar d = ''0123456789'' ! d"

fun natToString :: "nat \<Rightarrow> string" where
  "natToString n = (if n < 10 then [digitChar n] else natToString (n div 10) @ [digitChar (n mod 10)])"

declare natToString.simps [simp del]

fun join :: "string \<Rightarrow> string list \<Rightarrow> string" where
  "join sep [] = []"
| "join sep [x] = x"
| "join sep (x # y # ys) = x @ sep @ join sep (y # ys)"

definition isWhiteSpace :: "char \<Rightarrow> bool" where
  "isWhiteSpace c = (c \<in> set [CHR 0x09, CHR 0x0A, CHR 0x0B, CHR 0x0C, CHR 0x0D, CHR 0x20])"

definition digitValue :: "char \<Rightarrow> nat option" where
  "digitValue c =
     (let n = (of_char c :: nat) in
      if 48 \<le> n \<and> n \<le> 57 then Some (n - 48)
      else if 97 \<le> n \<and> n \<le> 122 then Some (n - 87)
      else if 65 \<le> n \<and> n \<le> 90 then Some (n - 55)
      else None)"

definition isRadixDigit :: "nat \<Rightarrow> char \<Rightarrow> bool" where
  "isRadixDigit radix c = (case digitValue c of None \<Rightarrow> False | Some d \<Rightarrow> d < radix)"

definition digitsValue :: "nat \<Rightarrow> string \<Rightarrow> int" where
  "digitsValue radix ds =
     foldl (\<lambda>acc c. acc * int radix + (case digitValue c of None \<Rightarrow> 0 | Some d \<Rightarrow> int d)) 0 ds"

text \<open>
  \<^verbatim>\<open>parseInt(s, radix)\<close> after the sign has been read: the longest prefix of digits of the
  radix, \<^verbatim>\<open>NaN\<close> when it is empty.
\<close>

definition parseDigits :: "nat \<Rightarrow> bool \<Rightarrow> string \<Rightarrow> jsnum" where
  "parseDigits radix negative s =
     (let ds = takeWhile (isRadixDigit radix) s in
      if ds = [] then NaN
      else if negative then Num (- digitsValue radix ds)
      else Num (digitsValue radix ds))"

definition stripSign :: "string \<Rightarrow> bool \<times> string" where
  "stripSign s =
     (case s of
        c # cs \<Rightarrow> if c = CHR ''-'' then (True, cs) else if c = CHR ''+'' then (False, cs) else (False, s)
      | [] \<Rightarrow> (False, s))"

text \<open>\<^verbatim>\<open>parseInt(s, 10)\<close>.\<close>

definition parseInt10 :: "string \<Rightarrow> jsnum" where
  "parseInt10 s =
     (case stripSign (dropWhile isWhiteSpace s) of (negative, rest) \<Rightarrow> parseDigits 10 negative rest)"

text \<open>\<^verbatim>\<open>parseInt(s)\<close>: radix 16 after a \<^verbatim>\<open>0x\<close> or \<^verbatim>\<open>0X\<close> prefix, radix 10 otherwise.\<close>

definition parseInt :: "string \<Rightarrow> jsnum" where
  "parseInt s =
     (case stripSign (dropWhile isWhiteSpace s) of
        (negative, rest) \<Rightarrow>
          if prefix ''0x'' rest \<or> prefix ''0X'' rest then parseDigits 16 negative (drop 2 rest)
          else parseDigits 10 negative rest)"

fun numLess :: "jsnum \<Rightarrow> jsnum \<Rightarrow> bool" where
  "numLess (Num a) (Num b) = (a < b)"
| "numLess a b = False"

fun numGreaterEq :: "jsnum \<Rightarrow> jsnum \<Rightarrow> bool" where
  "numGreaterEq (Num a) (Num b) = (a \<ge> b)"
| "numGreaterEq a b = False"

definition isNaN :: "jsnum \<Rightarrow> bool" where
  "isNaN n = (n = NaN)"

definition startsWith :: "string \<Rightarrow> string \<Rightarrow> bool" where
  "startsWith s p = prefix p s"

definition endsWith :: "string \<Rightarrow> string \<Rightarrow> bool" where
  "endsWith s p = suffix p s"


definition toUpperChar :: "char \<Rightarrow> char" where
  "toUpperChar c =
     (let n = (of_char c :: nat) in if 97 \<le> n \<and> n \<le> 122 then char_of (n - 32) else c)"

definition toUpperCase :: "string \<Rightarrow> string" where
  "toUpperCase s = map toUpperChar s"

subsection \<open>Objects\<close>

definition indexStrings :: "nat \<Rightarrow> string list" where
  "indexStrings n = map natToString [0..<n]"

text \<open>\<^verbatim>\<open>Object.keys(v)\<close> for a value that is neither \<^verbatim>\<open>null\<close> nor \<^verbatim>\<open>undefined\<close>
  (every call in the adapter is behind a truthiness test): the own enumerable keys, none
  of the prototype's.\<close>

fun objectKeys :: "jsval \<Rightarrow> string list" where
  "objectKeys (JObj kvs) = map fst kvs"
| "objectKeys (JObjProto p kvs) = map fst kvs"
| "objectKeys (JArr xs) = indexStrings (length xs)"
| "objectKeys (JStr s) = indexStrings (length s)"
| "objectKeys v = []"

text \<open>
  An array index is the canonical decimal name of an integer below \<open>2^32 - 1\<close>. Such keys
  come first in the key order of an object, in ascending order.
\<close>

definition arrayIndex :: "string \<Rightarrow> int option" where
  "arrayIndex k =
     (if k \<noteq> [] \<and> list_all (isRadixDigit 10) k \<and> (k = ''0'' \<or> hd k \<noteq> CHR ''0'')
         \<and> digitsValue 10 k < 4294967295
      then Some (digitsValue 10 k) else None)"

text \<open>
  The own properties of a value: the properties of an object, the elements and the length of
  an array or a string.
\<close>

fun ownProperty :: "jsval \<Rightarrow> string \<Rightarrow> jsval option" where
  "ownProperty (JObj kvs) k = map_of kvs k"
| "ownProperty (JObjProto p kvs) k = map_of kvs k"
| "ownProperty (JArr xs) k =
     (if k = ''length'' then Some (JNum (Num (int (length xs))))
      else case arrayIndex k of
             Some i \<Rightarrow> if i < int (length xs) then Some (xs ! nat i) else None
           | None \<Rightarrow> None)"
| "ownProperty (JStr s) k =
     (if k = ''length'' then Some (JNum (Num (int (length s))))
      else case arrayIndex k of
             Some i \<Rightarrow> if i < int (length s) then Some (JStr [s ! nat i]) else None
           | None \<Rightarrow> None)"
| "ownProperty v k = None"

text \<open>
  The property a read finds before it reaches a built-in prototype: an own property, or a
  property of a prototype that was set through \<^verbatim>\<open>__proto__\<close>, the nearest first.
\<close>

fun findProperty :: "jsval \<Rightarrow> string \<Rightarrow> jsval option" where
  "findProperty (JObjProto p kvs) k =
     (case map_of kvs k of Some v \<Rightarrow> Some v | None \<Rightarrow> findProperty p k)"
| "findProperty v k = ownProperty v k"

text \<open>
  The names a value inherits from the built-in prototypes (ECMAScript 2023):
  \<^verbatim>\<open>Object.prototype\<close> for every value whose chain of prototypes does not end in
  \<^verbatim>\<open>null\<close>, before it \<^verbatim>\<open>Array.prototype\<close>, \<^verbatim>\<open>String.prototype\<close>,
  \<^verbatim>\<open>Number.prototype\<close> or \<^verbatim>\<open>Boolean.prototype\<close> for an array, a string, a number or
  a boolean. (The \<^verbatim>\<open>length\<close> of an array or a string is its own property.) Each of these
  members is a function, but \<^verbatim>\<open>__proto__\<close>, which reads as the prototype, an object.
\<close>

definition objectPrototypeNames :: "string list" where
  "objectPrototypeNames =
     [''constructor'', ''__defineGetter__'', ''__defineSetter__'', ''hasOwnProperty'',
      ''__lookupGetter__'', ''__lookupSetter__'', ''isPrototypeOf'', ''propertyIsEnumerable'',
      ''toString'', ''valueOf'', ''__proto__'', ''toLocaleString'']"

definition arrayPrototypeNames :: "string list" where
  "arrayPrototypeNames =
     [''constructor'', ''at'', ''concat'', ''copyWithin'', ''fill'', ''find'', ''findIndex'',
      ''findLast'', ''findLastIndex'', ''lastIndexOf'', ''pop'', ''push'', ''reverse'', ''shift'',
      ''unshift'', ''slice'', ''sort'', ''splice'', ''includes'', ''indexOf'', ''join'', ''keys'',
      ''entries'', ''values'', ''forEach'', ''filter'', ''flat'', ''flatMap'', ''map'', ''every'',
      ''some'', ''reduce'', ''reduceRight'', ''toLocaleString'', ''toString'', ''toReversed'',
      ''toSorted'', ''toSpliced'', ''with'']"

definition stringPrototypeNames :: "string list" where
  "stringPrototypeNames =
     [''constructor'', ''anchor'', ''at'', ''big'', ''blink'', ''bold'', ''charAt'', ''charCodeAt'',
      ''codePointAt'', ''concat'', ''endsWith'', ''fontcolor'', ''fontsize'', ''fixed'',
      ''includes'', ''indexOf'', ''isWellFormed'', ''italics'', ''lastIndexOf'', ''link'',
      ''localeCompare'', ''match'', ''matchAll'', ''normalize'', ''padEnd'', ''padStart'',
      ''repeat'', ''replace'', ''replaceAll'', ''search'', ''slice'', ''small'', ''split'',
      ''strike'', ''sub'', ''substr'', ''substring'', ''sup'', ''startsWith'', ''toString'',
      ''toWellFormed'', ''trim'', ''trimStart'', ''trimLeft'', ''trimEnd'', ''trimRight'',
      ''toLocaleLowerCase'', ''toLocaleUpperCase'', ''toLowerCase'', ''toUpperCase'', ''valueOf'']"

definition numberPrototypeNames :: "string list" where
  "numberPrototypeNames =
     [''constructor'', ''toExponential'', ''toFixed'', ''toPrecision'', ''toString'', ''valueOf'',
      ''toLocaleString'']"

definition booleanPrototypeNames :: "string list" where
  "booleanPrototypeNames = [''constructor'', ''toString'', ''valueOf'']"

fun builtinNames :: "jsval \<Rightarrow> string list" where
  "builtinNames JUndefined = []"
| "builtinNames JNull = []"
| "builtinNames (JBool b) = booleanPrototypeNames @ objectPrototypeNames"
| "builtinNames (JNum n) = numberPrototypeNames @ objectPrototypeNames"
| "builtinNames (JStr s) = stringPrototypeNames @ objectPrototypeNames"
| "builtinNames (JArr xs) = arrayPrototypeNames @ objectPrototypeNames"
| "builtinNames (JObj kvs) = objectPrototypeNames"
| "builtinNames (JObjProto p kvs) = builtinNames p"

text \<open>
  The tests the adapter makes on a property it reads under a name that the input chooses,
  \<^verbatim>\<open>v[k] === undefined\<close> and the truthiness of \<^verbatim>\<open>v[k]\<close>, on a value that is neither
  \<^verbatim>\<open>null\<close> nor \<^verbatim>\<open>undefined\<close>. A member of a built-in prototype is a function or an
  object: it is not \<^verbatim>\<open>undefined\<close>, and it is truthy.
\<close>

definition readsUndefined :: "jsval \<Rightarrow> string \<Rightarrow> bool" where
  "readsUndefined v k =
     (case findProperty v k of Some x \<Rightarrow> x = JUndefined | None \<Rightarrow> k \<notin> set (builtinNames v))"

definition readsTruthy :: "jsval \<Rightarrow> string \<Rightarrow> bool" where
  "readsTruthy v k =
     (case findProperty v k of Some x \<Rightarrow> truthy x | None \<Rightarrow> k \<in> set (builtinNames v))"

text \<open>
  The names under which the adapter reads a property of a contract, of a request or of a
  response and uses the value. No built-in prototype has a member of such a name
  (\<open>fieldNames_not_builtin\<close>).
\<close>

definition fieldNames :: "string list" where
  "fieldNames =
     [''path'', ''method'', ''response'', ''auth'', ''authorization'', ''roles'', ''scopes'',
      ''claims'', ''userClaimPath'', ''routeParamName'', ''requiresAuthentication'', ''params'',
      ''query'', ''body'', ''tags'', ''summary'', ''data'', ''items'', ''results'', ''id'', ''_id'']"

text \<open>
  Reading \<^verbatim>\<open>v.k\<close>, for \<open>k\<close> one of \<open>fieldNames\<close>, from a value that is neither
  \<^verbatim>\<open>null\<close> nor \<^verbatim>\<open>undefined\<close>: the property found on the value or on its chain of
  prototypes, \<^verbatim>\<open>undefined\<close> when there is none.
\<close>

definition getField :: "jsval \<Rightarrow> string \<Rightarrow> jsval" where
  "getField v k = (case findProperty v k of Some x \<Rightarrow> x | None \<Rightarrow> JUndefined)"

text \<open>Reading \<^verbatim>\<open>v.k\<close> from any value: a \<^verbatim>\<open>TypeError\<close> on \<^verbatim>\<open>null\<close> and \<^verbatim>\<open>undefined\<close>.\<close>

fun getProp :: "jsval \<Rightarrow> string \<Rightarrow> js_error + jsval" where
  "getProp JUndefined k = Inl (TypeErrorReadProperty ''undefined'' k)"
| "getProp JNull k = Inl (TypeErrorReadProperty ''null'' k)"
| "getProp v k = Inr (getField v k)"

text \<open>
  The own properties of an object after a property has been created or overwritten: an
  existing key keeps its place, a new array index goes before every larger index and every
  other key, any other new key goes last.
\<close>

fun insertIndex :: "int \<Rightarrow> string \<Rightarrow> jsval \<Rightarrow> (string \<times> jsval) list \<Rightarrow> (string \<times> jsval) list" where
  "insertIndex i k v [] = [(k, v)]"
| "insertIndex i k v (p # ps) =
     (case arrayIndex (fst p) of
        Some j \<Rightarrow> if j < i then p # insertIndex i k v ps else (k, v) # p # ps
      | None \<Rightarrow> (k, v) # p # ps)"

definition putOwnProperty :: "(string \<times> jsval) list \<Rightarrow> string \<Rightarrow> jsval \<Rightarrow> (string \<times> jsval) list" where
  "putOwnProperty kvs k v =
     (if k \<in> set (map fst kvs) then map (\<lambda>p. if fst p = k then (k, v) else p) kvs
      else case arrayIndex k of
             Some i \<Rightarrow> insertIndex i k v kvs
           | None \<Rightarrow> kvs @ [(k, v)])"

fun ownProperties :: "jsval \<Rightarrow> (string \<times> jsval) list" where
  "ownProperties (JObj kvs) = kvs"
| "ownProperties (JObjProto p kvs) = kvs"
| "ownProperties v = []"

fun withOwnProperties :: "jsval \<Rightarrow> (string \<times> jsval) list \<Rightarrow> jsval" where
  "withOwnProperties (JObj kvs) kvs' = JObj kvs'"
| "withOwnProperties (JObjProto p kvs) kvs' = JObjProto p kvs'"
| "withOwnProperties v kvs' = v"

fun isObject :: "jsval \<Rightarrow> bool" where
  "isObject (JObj kvs) = True"
| "isObject (JObjProto p kvs) = True"
| "isObject (JArr xs) = True"
| "isObject v = False"

text \<open>Whether the chain of prototypes of a value ends in \<^verbatim>\<open>Object.prototype\<close>.\<close>

fun inheritsObjectPrototype :: "jsval \<Rightarrow> bool" where
  "inheritsObjectPrototype JUndefined = False"
| "inheritsObjectPrototype JNull = False"
| "inheritsObjectPrototype (JObjProto p kvs) = inheritsObjectPrototype p"
| "inheritsObjectPrototype v = True"

text \<open>
  The assignment \<^verbatim>\<open>obj[k] = v\<close> on an object that the extraction is building. Every name
  but one creates or overwrites an own property. The name \<^verbatim>\<open>__proto__\<close> is an accessor of
  \<^verbatim>\<open>Object.prototype\<close>: when the object inherits it (its chain of prototypes ends in
  \<^verbatim>\<open>Object.prototype\<close> and holds no property of that name), the assignment calls the
  setter, which makes \<open>v\<close> the prototype of the object when \<open>v\<close> is an object or
  \<^verbatim>\<open>null\<close> and does nothing otherwise; no own property is created.
\<close>

definition setProperty :: "jsval \<Rightarrow> string \<Rightarrow> jsval \<Rightarrow> jsval" where
  "setProperty obj k v =
     (if k = ''__proto__'' \<and> findProperty obj k = None \<and> inheritsObjectPrototype obj
      then (if isObject v \<or> v = JNull then JObjProto v (ownProperties obj) else obj)
      else withOwnProperties obj (putOwnProperty (ownProperties obj) k v))"

subsection \<open>Syntax trees and the extraction of the contract\<close>

text \<open>
  What the adapter looks at in a TypeScript syntax tree. A property name and an expression
  that is not a literal carry their source text (\<^verbatim>\<open>getText()\<close>, the quotes of a
  quoted property name included); a numeric literal
  carries the number \<^verbatim>\<open>parseFloat\<close> reads from it. The extraction starts from the
  empty object \<^verbatim>\<open>{}\<close> and assigns the properties in the order of the literal.
\<close>

datatype expression =
    StringLiteral string
  | NumericLiteral int
  | TrueKeyword
  | FalseKeyword
  | NullKeyword
  | ObjectLiteralExpression "property list"
  | ArrayLiteralExpression "expression list"
  | OtherExpression string
and property =
    PropertyAssignment string expression
  | OtherProperty

datatype binding_name = Identifier string | BindingPattern

record variable_declaration =
  name :: binding_name
  initializer :: "expression option"

datatype node =
    VariableStatement "variable_declaration list"
  | TypeAliasDeclaration string
  | OtherNode

type_synonym source_file = "node list"

fun extractContractDetails :: "property list \<Rightarrow> jsval \<Rightarrow> jsval"
and extractArrayDetails :: "expression list \<Rightarrow> jsval list"
and extractValue :: "expression \<Rightarrow> jsval" where
  "extractContractDetails [] contract = contract"
| "extractContractDetails (PropertyAssignment nm ini # ps) contract =
     extractContractDetails ps (setProperty contract nm (extractValue ini))"
| "extractContractDetails (OtherProperty # ps) contract = extractContractDetails ps contract"
| "extractArrayDetails [] = []"
| "extractArrayDetails (e # es) = extractValue e # extractArrayDetails es"
| "extractValue (StringLiteral text) = JStr text"
| "extractValue (NumericLiteral n) = JNum (Num n)"
| "extractValue TrueKeyword = JBool True"
| "extractValue FalseKeyword = JBool False"
| "extractValue NullKeyword = JNull"
| "extractValue (ObjectLiteralExpression ps) = extractContractDetails ps (JObj [])"
| "extractValue (ArrayLiteralExpression es) = JArr (extractArrayDetails es)"
| "extractValue (OtherExpression text) = JStr text"

subsection \<open>The adapter and its environment\<close>

type_synonym program = "string \<Rightarrow> source_file option"

text \<open>
  The collaborators the adapter calls: Node's \<^verbatim>\<open>path\<close> and \<^verbatim>\<open>fs\<close> modules, the
  TypeScript compiler, and two conversions of the JavaScript runtime:
  \<^verbatim>\<open>Number.prototype.toString\<close> (for \<open>Num i\<close>, the printing of the double nearest to
  \<open>i\<close>) and the conversion of an object to a string, which calls the object's
  \<^verbatim>\<open>toString\<close> and \<^verbatim>\<open>valueOf\<close> and throws a \<^verbatim>\<open>TypeError\<close> when neither gives a
  primitive value. A failing read returns the message of the error it throws.
\<close>

record env =
  path_isAbsolute :: "string \<Rightarrow> bool"
  path_resolve :: "string \<Rightarrow> string \<Rightarrow> string"
  path_basename :: "string \<Rightarrow> string \<Rightarrow> string"
  path_extname :: "string \<Rightarrow> string"
  fs_readFile :: "string \<Rightarrow> string + string"
  fs_readdirSync :: "string \<Rightarrow> string + string list"
  ts_createProgram :: "string list \<Rightarrow> program"
  ts_createSourceFile :: "string \<Rightarrow> string \<Rightarrow> source_file"
  js_numberToString :: "jsnum \<Rightarrow> string"
  js_objectToString :: "jsval \<Rightarrow> js_error + string"

text \<open>
  String conversion, as a template literal \<^verbatim>\<open>`${v}`\<close> performs it. An array joins the
  conversions of its elements with commas, a \<^verbatim>\<open>null\<close> or \<^verbatim>\<open>undefined\<close> element giving
  the empty string; the first conversion that throws ends it.
\<close>

fun joinConverted :: "(js_error + string) list \<Rightarrow> js_error + string list" where
  "joinConverted [] = Inr []"
| "joinConverted (Inl err # rs) = Inl err"
| "joinConverted (Inr s # rs) =
     (case joinConverted rs of Inl err \<Rightarrow> Inl err | Inr ss \<Rightarrow> Inr (s # ss))"

fun toString :: "env \<Rightarrow> jsval \<Rightarrow> js_error + string" where
  "toString e JUndefined = Inr ''undefined''"
| "toString e JNull = Inr ''null''"
| "toString e (JBool b) = Inr (if b then ''true'' else ''false'')"
| "toString e (JNum n) = Inr (js_numberToString e n)"
| "toString e (JStr s) = Inr s"
| "toString e (JArr xs) =
     (case joinConverted (map (\<lambda>x. if x = JNull \<or> x = JUndefined then Inr [] else toString e x) xs) of
        Inl err \<Rightarrow> Inl err
      | Inr ss \<Rightarrow> Inr (join '','' ss))"
| "toString e (JObj kvs) = js_objectToString e (JObj kvs)"
| "toString e (JObjProto p kvs) = js_objectToString e (JObjProto p kvs)"

record adapter =
  contractsBasePath :: string
  program :: "program option"
  typeChecker :: "unit option"

definition findContractFiles :: "env \<Rightarrow> adapter \<Rightarrow> string list" where
  "findContractFiles e a =
     (case fs_readdirSync e (contractsBasePath a) of
        Inl err \<Rightarrow> []
      | Inr contractsDir \<Rightarrow>
          map (\<lambda>file. path_resolve e (contractsBasePath a) file)
            (filter (\<lambda>file. endsWith file ''.ts'' \<or> endsWith file ''.js'') contractsDir))"

definition initTypeScriptCompiler :: "env \<Rightarrow> adapter \<Rightarrow> adapter" where
  "initTypeScriptCompiler e a =
     (let fileNames = findContractFiles e a in
      if length fileNames > 0
      then a\<lparr>program := Some (ts_createProgram e fileNames), typeChecker := Some ()\<rparr>
      else a)"

definition cleanup :: "adapter \<Rightarrow> adapter" where
  "cleanup a = a\<lparr>program := None, typeChecker := None\<rparr>"

definition resolveContractPath :: "env \<Rightarrow> adapter \<Rightarrow> string \<Rightarrow> string" where
  "resolveContractPath e a contractPath =
     (if path_isAbsolute e contractPath then contractPath
      else path_resolve e (contractsBasePath a) contractPath)"

text \<open>
  What \<^verbatim>\<open>readContract\<close> returns. The field \<open>contract\<close> is \<open>JUndefined\<close> when the
  returned object has no such property and \<open>JNull\<close> when no declaration named
  \<^verbatim>\<open>Contract\<close> with an object literal was found.
\<close>

record contract_info =
  path :: string
  content :: string
  contract :: jsval
  exportName :: "string option"
  sourceFile :: "source_file option"

text \<open>One step of the \<^verbatim>\<open>ts.forEachChild\<close> callback that looks for the contract.\<close>

fun visitContract :: "jsval \<times> string option \<Rightarrow> node \<Rightarrow> jsval \<times> string option" where
  "visitContract (c, en) (VariableStatement ds) =
     (case ds of
        [] \<Rightarrow> (c, en)
      | declaration # rest \<Rightarrow>
          (case name declaration of
             Identifier nm \<Rightarrow>
               if nm = ''Contract''
               then (case initializer declaration of
                       Some (ObjectLiteralExpression ps) \<Rightarrow> (extractContractDetails ps (JObj []), Some nm)
                     | _ \<Rightarrow> (c, Some nm))
               else (c, en)
           | BindingPattern \<Rightarrow> (c, en)))"
| "visitContract (c, en) nd = (c, en)"

text \<open>
  \<^verbatim>\<open>if (!this.program) { this.initTypeScriptCompiler(); }\<close>
\<close>

definition ensureCompiler :: "env \<Rightarrow> adapter \<Rightarrow> adapter" where
  "ensureCompiler e a = (if program a = None then initTypeScriptCompiler e a else a)"

text \<open>
  The part of \<^verbatim>\<open>readContract\<close> after the file has been read and the compiler has been
  set up: the three shapes of the returned object.
\<close>

definition locateContract :: "env \<Rightarrow> adapter \<Rightarrow> string \<Rightarrow> string \<Rightarrow> contract_info" where
  "locateContract e a resolvedPath cnt =
     (case program a of
        None \<Rightarrow>
          \<lparr>path = resolvedPath, content = cnt, contract = JUndefined,
           exportName = None, sourceFile = None\<rparr>
      | Some prog \<Rightarrow>
          if typeChecker a = None
          then \<lparr>path = resolvedPath, content = cnt, contract = JUndefined,
                exportName = None, sourceFile = None\<rparr>
          else (case prog resolvedPath of
                  None \<Rightarrow>
                    \<lparr>path = resolvedPath, content = cnt, contract = JUndefined,
                     exportName = None,
                     sourceFile = Some (ts_createSourceFile e resolvedPath cnt)\<rparr>
                | Some sf \<Rightarrow>
                    (case foldl visitContract (JNull, None) sf of
                       (c, en) \<Rightarrow>
                         \<lparr>path = resolvedPath, content = cnt, contract = c,
                          exportName = en, sourceFile = Some sf\<rparr>)))"

definition readContract :: "env \<Rightarrow> adapter \<Rightarrow> string \<Rightarrow> (js_error + contract_info) \<times> adapter" where
  "readContract e a contractPath =
     (let resolvedPath = resolveContractPath e a contractPath in
      case fs_readFile e resolvedPath of
        Inl msg \<Rightarrow>
          (Inl (Error (''Failed to read contract file '' @ resolvedPath @ '': '' @ msg)), a)
      | Inr cnt \<Rightarrow>
          (let a' = ensureCompiler e a in (Inr (locateContract e a' resolvedPath cnt), a')))"

text \<open>
  The contract the adapter extracts for a contract reference: \<^verbatim>\<open>undefined\<close> when the
  file cannot be read or the returned object has no contract, \<^verbatim>\<open>null\<close> when the file
  declares none.
\<close>

definition contractOf :: "env \<Rightarrow> adapter \<Rightarrow> string \<Rightarrow> jsval" where
  "contractOf e a contractPath =
     (case fst (readContract e a contractPath) of Inl err \<Rightarrow> JUndefined | Inr info \<Rightarrow> contract info)"

text \<open>\<^verbatim>\<open>path.basename(contractPath, path.extname(contractPath))\<close>.\<close>

definition contractNameOf :: "env \<Rightarrow> string \<Rightarrow> string" where
  "contractNameOf e contractPath = path_basename e contractPath (path_extname e contractPath)"

subsection \<open>Validation results\<close>

record validation_result =
  success :: bool
  errors :: "string list option"
  warnings :: "string list option"
  details :: "(string \<times> jsval) list option"

text \<open>\<^verbatim>\<open>xs.length > 0 ? xs : undefined\<close>.\<close>

definition nonEmpty :: "string list \<Rightarrow> string list option" where
  "nonEmpty xs = (if length xs > 0 then Some xs else None)"

definition makeResult :: "string list \<Rightarrow> string list \<Rightarrow> (string \<times> jsval) list \<Rightarrow> validation_result" where
  "makeResult errs warns det =
     \<lparr>success = (length errs = 0), errors = nonEmpty errs, warnings = nonEmpty warns,
      details = Some det\<rparr>"

text \<open>The result of a \<^verbatim>\<open>catch\<close> block: one error, the operation's prefix before the message.\<close>

definition failedResult :: "string \<Rightarrow> js_error \<Rightarrow> validation_result" where
  "failedResult what err =
     \<lparr>success = False, errors = Some [what @ '': '' @ message err], warnings = None, details = None\<rparr>"

definition notFoundResult :: "string \<Rightarrow> env \<Rightarrow> string \<Rightarrow> contract_info \<Rightarrow> validation_result" where
  "notFoundResult msg e contractPath info =
     \<lparr>success = False, errors = Some [msg], warnings = None,
      details = Some [(''contractName'', JStr (contractNameOf e contractPath)),
                      (''path'', JStr (path info))]\<rparr>"

text \<open>
  The names \<^verbatim>\<open>path.match(/\:[a-zA-Z0-9_]+/g)\<close> finds, each without its colon
  (\<^verbatim>\<open>substring(1)\<close>), from left to right.
\<close>

definition isWordChar :: "char \<Rightarrow> bool" where
  "isWordChar c =
     (let n = (of_char c :: nat) in
      (97 \<le> n \<and> n \<le> 122) \<or> (65 \<le> n \<and> n \<le> 90) \<or> (48 \<le> n \<and> n \<le> 57) \<or> c = CHR ''_'')"

function matchPathParams :: "string \<Rightarrow> string list" where
  "matchPathParams [] = []"
| "matchPathParams (c # cs) =
     (if c = CHR '':'' \<and> takeWhile isWordChar cs \<noteq> []
      then takeWhile isWordChar cs # matchPathParams (dropWhile isWordChar cs)
      else matchPathParams cs)"
  by pat_completeness auto
termination
  by (relation "measure length") (auto simp: length_dropWhile_le less_Suc_eq_le)

text \<open>
  \<^verbatim>\<open>(v.match(/\:[a-zA-Z0-9_]+/g) || []).map(param => param.substring(1))\<close> on any value.
\<close>

fun pathParamsOf :: "jsval \<Rightarrow> js_error + string list" where
  "pathParamsOf JUndefined = Inl (TypeErrorReadProperty ''undefined'' ''match'')"
| "pathParamsOf JNull = Inl (TypeErrorReadProperty ''null'' ''match'')"
| "pathParamsOf (JStr s) = Inr (matchPathParams s)"
| "pathParamsOf v = Inl (TypeErrorNotFunction ''contract.path.match'')"

subsection \<open>validateContract\<close>

definition requiredFields :: "string list" where
  "requiredFields = [''path'', ''method'', ''response'']"

definition missingFieldMessage :: "string \<Rightarrow> string" where
  "missingFieldMessage field = ''Missing required field: '' @ field"

definition requiredFieldErrors :: "jsval \<Rightarrow> string list" where
  "requiredFieldErrors c =
     map missingFieldMessage (filter (\<lambda>field. \<not> truthy (getField c field)) requiredFields)"

text \<open>
  The method that is not one of the five names is printed in the error by a template
  literal; the conversion of an object can throw.
\<close>

definition methodErrors :: "env \<Rightarrow> jsval \<Rightarrow> js_error + string list" where
  "methodErrors e c =
     (let m = getField c ''method'' in
      if truthy m \<and> m \<notin> set (map JStr [''get'', ''post'', ''put'', ''delete'', ''patch''])
      then (case toString e m of
              Inl err \<Rightarrow> Inl err
            | Inr printed \<Rightarrow>
                Inr [''Invalid method: '' @ printed @ ''. Must be one of: get, post, put, delete, patch''])
      else Inr [])"

text \<open>
  \<^verbatim>\<open>contract.path && !contract.path.startsWith('/')\<close>: a truthy path that is not a string
  has no method \<^verbatim>\<open>startsWith\<close>, and the call throws.
\<close>

definition pathErrors :: "jsval \<Rightarrow> js_error + string list" where
  "pathErrors c =
     (let p = getField c ''path'' in
      if \<not> truthy p then Inr []
      else case p of
             JStr s \<Rightarrow>
               Inr (if \<not> startsWith s ''/'' then [''Invalid path: '' @ s @ ''. Must start with /''] else [])
           | _ \<Rightarrow> Inl (TypeErrorNotFunction ''contract.path.startsWith''))"

definition invalidStatusCode :: "string \<Rightarrow> bool" where
  "invalidStatusCode key =
     (let statusCode = parseInt10 key in
      isNaN statusCode \<or> numLess statusCode (Num 100) \<or> numLess (Num 599) statusCode)"

definition invalidStatusMessage :: "string \<Rightarrow> string" where
  "invalidStatusMessage key =
     ''Invalid status code in response: '' @ key @ ''. Must be a valid HTTP status code (100-599)''"

definition responseErrors :: "jsval \<Rightarrow> string list" where
  "responseErrors c =
     (let r = getField c ''response'' in
      if truthy r \<and> typeof r = ''object''
      then (let responseKeys = objectKeys r in
            if length responseKeys = 0 then [''Response object must have at least one status code'']
            else map invalidStatusMessage (filter invalidStatusCode responseKeys))
      else [])"

text \<open>
  The \<^verbatim>\<open>forEach\<close> over the claims, from position \<open>index\<close> on. Reading a property of a
  \<^verbatim>\<open>null\<close> element throws.
\<close>

fun claimErrors :: "nat \<Rightarrow> jsval list \<Rightarrow> js_error + string list" where
  "claimErrors index [] = Inr []"
| "claimErrors index (claim # rest) =
     (case getProp claim ''userClaimPath'' of
        Inl err \<Rightarrow> Inl err
      | Inr ucp \<Rightarrow>
          (case getProp claim ''routeParamName'' of
             Inl err \<Rightarrow> Inl err
           | Inr rpn \<Rightarrow>
               (case claimErrors (Suc index) rest of
                  Inl err \<Rightarrow> Inl err
                | Inr others \<Rightarrow>
                    Inr ((if \<not> truthy ucp
                          then [''Claim at index '' @ natToString index @ '' is missing required field userClaimPath'']
                          else [])
                         @ (if \<not> truthy rpn
                            then [''Claim at index '' @ natToString index @ '' is missing required field routeParamName'']
                            else [])
                         @ others))))"

definition stringOrArrayErrors :: "string \<Rightarrow> jsval \<Rightarrow> string list" where
  "stringOrArrayErrors what v =
     (if truthy v \<and> \<not> isArray v \<and> typeof v \<noteq> ''string''
      then [''Authorization '' @ what @ '' must be a string or array of strings'']
      else [])"

definition claimsErrors :: "jsval \<Rightarrow> js_error + string list" where
  "claimsErrors claims =
     (if truthy claims
      then (case claims of
              JArr xs \<Rightarrow> claimErrors 0 xs
            | _ \<Rightarrow> Inr [''Authorization claims must be an array''])
      else Inr [])"

definition authErrors :: "jsval \<Rightarrow> js_error + string list" where
  "authErrors c =
     (let auth = getField c ''auth'' in
      if truthy auth
      then (let authorization = getField auth ''authorization'' in
            if truthy authorization
            then (case claimsErrors (getField authorization ''claims'') of
                    Inl err \<Rightarrow> Inl err
                  | Inr claimErrs \<Rightarrow>
                      Inr (stringOrArrayErrors ''roles'' (getField authorization ''roles'')
                           @ stringOrArrayErrors ''scopes'' (getField authorization ''scopes'')
                           @ claimErrs))
            else Inr [])
      else Inr [])"

definition pathParamWarnings :: "jsval \<Rightarrow> js_error + string list" where
  "pathParamWarnings c =
     (if truthy (getField c ''path'')
      then (case pathParamsOf (getField c ''path'') of
              Inl err \<Rightarrow> Inl err
            | Inr pathParams \<Rightarrow>
                Inr (if length pathParams > 0 \<and> \<not> truthy (getField c ''params'')
                     then [''Path contains parameters ('' @ join '', '' pathParams
                           @ '') but no params schema is defined'']
                     else []))
      else Inr [])"

definition contractDetails :: "env \<Rightarrow> string \<Rightarrow> contract_info \<Rightarrow> jsval \<Rightarrow> (string \<times> jsval) list" where
  "contractDetails e contractPath info c =
     [(''contractName'', JStr (contractNameOf e contractPath)),
      (''path'', JStr (path info)),
      (''method'', getField c ''method''),
      (''apiPath'', getField c ''path''),
      (''tags'', (let tags = getField c ''tags'' in
                  if truthy tags then (if isArray tags then tags else JArr [tags]) else JArr [])),
      (''summary'', (let summary = getField c ''summary'' in
                     if truthy summary then summary else JStr ''No summary provided'')),
      (''hasParams'', JBool (truthy (getField c ''params''))),
      (''hasQuery'', JBool (truthy (getField c ''query''))),
      (''hasBody'', JBool (truthy (getField c ''body''))),
      (''responseStatuses'',
         (let r = getField c ''response'' in
          if truthy r then JArr (map JStr (objectKeys r)) else JArr [])),
      (''requiresAuth'',
         (let auth = getField c ''auth'' in
          JBool (auth \<noteq> JUndefined \<and> auth \<noteq> JNull \<and> getField auth ''requiresAuthentication'' = JBool True)))]"

text \<open>
  The checks on a contract that was found, in the order of the source. The first exception
  ends them; the errors collected until then are lost with it.
\<close>

definition contractChecks :: "env \<Rightarrow> jsval \<Rightarrow> js_error + (string list \<times> string list)" where
  "contractChecks e c =
     (case methodErrors e c of
        Inl err \<Rightarrow> Inl err
      | Inr methodErrs \<Rightarrow>
          (case pathErrors c of
             Inl err \<Rightarrow> Inl err
           | Inr pathErrs \<Rightarrow>
               (case authErrors c of
                  Inl err \<Rightarrow> Inl err
                | Inr authErrs \<Rightarrow>
                    (case pathParamWarnings c of
                       Inl err \<Rightarrow> Inl err
                     | Inr warns \<Rightarrow>
                         Inr (requiredFieldErrors c @ methodErrs @ pathErrs @ responseErrors c
                              @ authErrs,
                              warns)))))"

text \<open>The body of the \<^verbatim>\<open>try\<close> block.\<close>

definition validateContractTry :: "env \<Rightarrow> adapter \<Rightarrow> string \<Rightarrow> (js_error + validation_result) \<times> adapter" where
  "validateContractTry e a contractPath =
     (case readContract e a contractPath of
        (Inl err, a') \<Rightarrow> (Inl err, a')
      | (Inr info, a') \<Rightarrow>
          if \<not> truthy (contract info)
          then (Inr (notFoundResult ''Contract export not found in the file'' e contractPath info), a')
          else (case contractChecks e (contract info) of
                  Inl err \<Rightarrow> (Inl err, a')
                | Inr (errs, warns) \<Rightarrow>
                    (Inr (makeResult errs warns (contractDetails e contractPath info (contract info))), a')))"

definition validateContract :: "env \<Rightarrow> adapter \<Rightarrow> string \<Rightarrow> validation_result \<times> adapter" where
  "validateContract e a contractPath =
     (case validateContractTry e a contractPath of
        (Inl err, a') \<Rightarrow> (failedResult ''Failed to validate contract'' err, a')
      | (Inr res, a') \<Rightarrow> (res, a'))"

subsection \<open>validateRequestType and validateResponseType\<close>

text \<open>
  Whether the \<^verbatim>\<open>forEachChild\<close> callback finds a variable statement whose first declaration
  is an identifier of the given name.
\<close>

fun declaresVariable :: "string \<Rightarrow> node \<Rightarrow> bool" where
  "declaresVariable nm (VariableStatement ds) =
     (case ds of
        [] \<Rightarrow> False
      | declaration # rest \<Rightarrow> (case name declaration of Identifier x \<Rightarrow> x = nm | BindingPattern \<Rightarrow> False))"
| "declaresVariable nm nd = False"

fun declaresTypeAlias :: "string \<Rightarrow> node \<Rightarrow> bool" where
  "declaresTypeAlias nm (TypeAliasDeclaration x) = (x = nm)"
| "declaresTypeAlias nm nd = False"

text \<open>
  \<^verbatim>\<open>['post', 'put', 'patch'].includes(contract.method)\<close>: the method, when it is one of
  the three strings.
\<close>

definition bodyMethod :: "jsval \<Rightarrow> string option" where
  "bodyMethod m =
     (case m of
        JStr s \<Rightarrow> if s \<in> set [''post'', ''put'', ''patch''] then Some s else None
      | _ \<Rightarrow> None)"

definition requestTypeChecks ::
  "source_file \<Rightarrow> jsval \<Rightarrow> js_error + (string list \<times> string list \<times> (string \<times> jsval) list)" where
  "requestTypeChecks sf c =
     (case pathParamsOf (getField c ''path'') of
        Inl err \<Rightarrow> Inl err
      | Inr pathParams \<Rightarrow>
          Inr ((if length pathParams > 0 \<and> \<not> truthy (getField c ''params'')
                then [''Path contains parameters ('' @ join '', '' pathParams
                      @ '') but no params schema is defined'']
                else []),
               (if getField c ''method'' = JStr ''get'' \<and> truthy (getField c ''query'')
                   \<and> \<not> list_ex (declaresVariable ''QuerySchema'') sf
                then [''Contract has a query parameter but QuerySchema is not exported'']
                else [])
               @ (case bodyMethod (getField c ''method'') of
                    Some m \<Rightarrow>
                      if \<not> truthy (getField c ''body'')
                      then [toUpperCase m @ '' request typically requires a body schema'']
                      else []
                  | None \<Rightarrow> []),
               (if length pathParams > 0
                then [(''pathParams'', JArr (map JStr pathParams))]
                     @ (if truthy (getField c ''params'') then [(''hasParamsSchema'', JBool True)] else [])
                else [])
               @ (if getField c ''method'' = JStr ''get'' \<and> truthy (getField c ''query'')
                  then [(''hasQuerySchema'', JBool True)] else [])
               @ (if bodyMethod (getField c ''method'') \<noteq> None \<and> truthy (getField c ''body'')
                  then [(''hasBodySchema'', JBool True)] else [])))"

definition validateRequestTypeTry :: "env \<Rightarrow> adapter \<Rightarrow> string \<Rightarrow> (js_error + validation_result) \<times> adapter" where
  "validateRequestTypeTry e a contractPath =
     (case readContract e a contractPath of
        (Inl err, a') \<Rightarrow> (Inl err, a')
      | (Inr info, a') \<Rightarrow>
          (case sourceFile info of
             None \<Rightarrow>
               (Inr (notFoundResult
                       ''Contract export not found in the file or could not parse source file''
                       e contractPath info), a')
           | Some sf \<Rightarrow>
               if \<not> truthy (contract info)
               then (Inr (notFoundResult
                            ''Contract export not found in the file or could not parse source file''
                            e contractPath info), a')
               else (case requestTypeChecks sf (contract info) of
                       Inl err \<Rightarrow> (Inl err, a')
                     | Inr (errs, warns, det) \<Rightarrow>
                         (Inr (makeResult errs warns
                                 ([(''contractName'', JStr (contractNameOf e contractPath)),
                                   (''path'', JStr (path info)),
                                   (''method'', getField (contract info) ''method''),
                                   (''apiPath'', getField (contract info) ''path'')] @ det)), a'))))"

definition validateRequestType :: "env \<Rightarrow> adapter \<Rightarrow> string \<Rightarrow> validation_result \<times> adapter" where
  "validateRequestType e a contractPath =
     (case validateRequestTypeTry e a contractPath of
        (Inl err, a') \<Rightarrow> (failedResult ''Failed to validate request type'' err, a')
      | (Inr res, a') \<Rightarrow> (res, a'))"

text \<open>The \<^verbatim>\<open>switch\<close> on the method: the status code each method is expected to declare.\<close>

definition methodStatusWarnings :: "jsval \<Rightarrow> string list \<Rightarrow> string list" where
  "methodStatusWarnings method responseStatusCodes =
     (case method of
        JStr m \<Rightarrow>
          if m = ''get''
          then (if ''200'' \<notin> set responseStatusCodes
                then [''GET requests typically include a 200 response status''] else [])
          else if m = ''post''
          then (if ''201'' \<notin> set responseStatusCodes \<and> ''200'' \<notin> set responseStatusCodes
                then [''POST requests typically include a 201 or 200 response status''] else [])
          else if m = ''put'' \<or> m = ''patch''
          then (if ''200'' \<notin> set responseStatusCodes
                then [toUpperCase m @ '' requests typically include a 200 response status'']
                else [])
          else if m = ''delete''
          then (if ''204'' \<notin> set responseStatusCodes \<and> ''200'' \<notin> set responseStatusCodes
                then [''DELETE requests typically include a 204 or 200 response status''] else [])
          else []
      | _ \<Rightarrow> [])"

definition responseTypeChecks ::
  "source_file \<Rightarrow> jsval \<Rightarrow> string list \<times> string list \<times> (string \<times> jsval) list" where
  "responseTypeChecks sf c =
     (let r = getField c ''response'';
          typeWarnings = (if \<not> list_ex (declaresTypeAlias ''Response'') sf
                          then [''Response type is not exported''] else [])
      in if \<not> truthy r \<or> typeof r \<noteq> ''object''
         then ([''Response schema is required and must be an object''], typeWarnings, [])
         else (let responseStatusCodes = objectKeys r in
               ((if length responseStatusCodes = 0
                 then [''Response object must define at least one status code''] else []),
                (if \<not> list_ex (declaresVariable ''ResponseSchema'') sf
                 then [''ResponseSchema is not exported, which may make it difficult to reuse'']
                 else [])
                @ methodStatusWarnings (getField c ''method'') responseStatusCodes
                @ (if \<not> list_ex (\<lambda>code. numGreaterEq (parseInt code) (Num 400)) responseStatusCodes
                   then [''No error response status codes defined (4xx, 5xx)''] else [])
                @ typeWarnings,
                [(''responseStatusCodes'', JArr (map JStr responseStatusCodes))])))"

definition validateResponseTypeTry :: "env \<Rightarrow> adapter \<Rightarrow> string \<Rightarrow> (js_error + validation_result) \<times> adapter" where
  "validateResponseTypeTry e a contractPath =
     (case readContract e a contractPath of
        (Inl err, a') \<Rightarrow> (Inl err, a')
      | (Inr info, a') \<Rightarrow>
          (case sourceFile info of
             None \<Rightarrow>
               (Inr (notFoundResult
                       ''Contract export not found in the file or could not parse source file''
                       e contractPath info), a')
           | Some sf \<Rightarrow>
               if \<not> truthy (contract info)
               then (Inr (notFoundResult
                            ''Contract export not found in the file or could not parse source file''
                            e contractPath info), a')
               else (case responseTypeChecks sf (contract info) of
                       (errs, warns, det) \<Rightarrow>
                         (Inr (makeResult errs warns
                                 ([(''contractName'', JStr (contractNameOf e contractPath)),
                                   (''path'', JStr (path info)),
                                   (''method'', getField (contract info) ''method'')] @ det)), a'))))"

definition validateResponseType :: "env \<Rightarrow> adapter \<Rightarrow> string \<Rightarrow> validation_result \<times> adapter" where
  "validateResponseType e a contractPath =
     (case validateResponseTypeTry e a contractPath of
        (Inl err, a') \<Rightarrow> (failedResult ''Failed to validate response type'' err, a')
      | (Inr res, a') \<Rightarrow> (res, a'))"

subsection \<open>validateRequestAgainstContract\<close>

text \<open>\<^verbatim>\<open>const { params, query, body } = request\<close>.\<close>

fun destructureRequest :: "jsval \<Rightarrow> js_error + (jsval \<times> jsval \<times> jsval)" where
  "destructureRequest JUndefined = Inl (TypeErrorDestructure ''params'' ''request'' ''undefined'')"
| "destructureRequest JNull = Inl (TypeErrorDestructure ''params'' ''request'' ''null'')"
| "destructureRequest request =
     Inr (getField request ''params'', getField request ''query'', getField request ''body'')"

definition containerErrors :: "string \<Rightarrow> jsval \<Rightarrow> jsval \<Rightarrow> string list" where
  "containerErrors what declared given =
     (if truthy declared \<and> truthy given \<and> typeof given \<noteq> ''object''
      then [what @ '' parameters must be an object''] else [])"

definition containerDetails :: "string \<Rightarrow> jsval \<Rightarrow> jsval \<Rightarrow> (string \<times> jsval) list" where
  "containerDetails what declared given =
     (if truthy declared \<and> truthy given \<and> typeof given = ''object''
      then [(what @ ''Valid'', JBool True), (what @ ''Provided'', JArr (map JStr (objectKeys given)))]
      else [])"

definition bodyWarnings :: "jsval \<Rightarrow> jsval \<Rightarrow> string list" where
  "bodyWarnings c body =
     (if truthy (getField c ''body'') \<and> truthy body
      then (if getField c ''method'' = JStr ''get'' \<and> truthy body
            then [''GET requests should not have a body''] else [])
      else (case bodyMethod (getField c ''method'') of
              Some m \<Rightarrow> if \<not> truthy body then [toUpperCase m @ '' request is missing a body''] else []
            | None \<Rightarrow> []))"

definition missingParamMessage :: "string \<Rightarrow> string" where
  "missingParamMessage param = ''Missing required path parameter: '' @ param"

definition pathParamErrors :: "jsval \<Rightarrow> jsval \<Rightarrow> js_error + string list" where
  "pathParamErrors c params =
     (if truthy (getField c ''path'')
      then (case pathParamsOf (getField c ''path'') of
              Inl err \<Rightarrow> Inl err
            | Inr pathParams \<Rightarrow>
                Inr (if length pathParams > 0
                     then (if \<not> truthy params
                           then [''Path contains parameters ('' @ join '', '' pathParams
                                 @ '') but no params object was provided'']
                           else map missingParamMessage
                                  (filter (\<lambda>param. readsUndefined params param) pathParams))
                     else []))
      else Inr [])"

definition requestChecks ::
  "jsval \<Rightarrow> jsval \<Rightarrow> js_error + (string list \<times> string list \<times> (string \<times> jsval) list)" where
  "requestChecks c request =
     (case destructureRequest request of
        Inl err \<Rightarrow> Inl err
      | Inr (params, query, body) \<Rightarrow>
          (case pathParamErrors c params of
             Inl err \<Rightarrow> Inl err
           | Inr paramErrs \<Rightarrow>
               Inr (containerErrors ''Path'' (getField c ''params'') params
                    @ containerErrors ''Query'' (getField c ''query'') query
                    @ paramErrs,
                    bodyWarnings c body,
                    containerDetails ''params'' (getField c ''params'') params
                    @ containerDetails ''query'' (getField c ''query'') query
                    @ (if truthy (getField c ''body'') \<and> truthy body
                       then [(''bodyProvided'', JBool True)] else []))))"

definition validateRequestAgainstContractTry ::
  "env \<Rightarrow> adapter \<Rightarrow> string \<Rightarrow> jsval \<Rightarrow> (js_error + validation_result) \<times> adapter" where
  "validateRequestAgainstContractTry e a contractPath request =
     (case readContract e a contractPath of
        (Inl err, a') \<Rightarrow> (Inl err, a')
      | (Inr info, a') \<Rightarrow>
          if \<not> truthy (contract info)
          then (Inr (notFoundResult ''Contract export not found in the file'' e contractPath info), a')
          else (case requestChecks (contract info) request of
                  Inl err \<Rightarrow> (Inl err, a')
                | Inr (errs, warns, det) \<Rightarrow>
                    (Inr (makeResult errs warns
                            ([(''contractName'', JStr (contractNameOf e contractPath)),
                              (''path'', JStr (path info)),
                              (''method'', getField (contract info) ''method''),
                              (''apiPath'', getField (contract info) ''path'')] @ det)), a')))"

definition validateRequestAgainstContract ::
  "env \<Rightarrow> adapter \<Rightarrow> string \<Rightarrow> jsval \<Rightarrow> validation_result \<times> adapter" where
  "validateRequestAgainstContract e a contractPath request =
     (case validateRequestAgainstContractTry e a contractPath request of
        (Inl err, a') \<Rightarrow> (failedResult ''Failed to validate request'' err, a')
      | (Inr res, a') \<Rightarrow> (res, a'))"

subsection \<open>validateResponseAgainstContract\<close>

text \<open>A word between double quotes.\<close>

definition quoted :: "string \<Rightarrow> string" where
  "quoted s = [CHR 0x22] @ s @ [CHR 0x22]"

text \<open>A parameter declared \<^verbatim>\<open>statusCode: number = 200\<close>: absent, it is 200.\<close>

definition defaultStatusCode :: "jsnum option \<Rightarrow> jsnum" where
  "defaultStatusCode sc = (case sc of None \<Rightarrow> Num 200 | Some n \<Rightarrow> n)"

text \<open>\<^verbatim>\<open>!contract.response || !contract.response[statusCode.toString()]\<close>.\<close>

definition noResponseFor :: "env \<Rightarrow> jsval \<Rightarrow> jsnum \<Rightarrow> bool" where
  "noResponseFor e c statusCode =
     (\<not> truthy (getField c ''response'')
      \<or> \<not> readsTruthy (getField c ''response'') (js_numberToString e statusCode))"

definition declaredStatusCodes :: "jsval \<Rightarrow> string list" where
  "declaredStatusCodes c =
     (if truthy (getField c ''response'') then objectKeys (getField c ''response'') else [])"

definition responseChecks ::
  "env \<Rightarrow> jsval \<Rightarrow> jsval \<Rightarrow> jsnum \<Rightarrow> string list \<times> string list \<times> (string \<times> jsval) list" where
  "responseChecks e c response statusCode =
     (if noResponseFor e c statusCode
      then ([''Contract does not define a response for status code ''
             @ js_numberToString e statusCode],
            [],
            (let definedStatusCodes = declaredStatusCodes c in
             if length definedStatusCodes > 0
             then [(''definedStatusCodes'', JArr (map JStr definedStatusCodes)),
                   (''suggestions'', JStr (''Contract defines responses for status codes: ''
                                           @ join '', '' definedStatusCodes))]
             else []))
      else if \<not> truthy response
      then ([''Response body is required for status code '' @ js_numberToString e statusCode], [],
            [(''responseSchemaExists'', JBool True)])
      else if typeof response \<noteq> ''object''
      then ([''Response must be an object or array''], [], [(''responseSchemaExists'', JBool True)])
      else ([],
            (if statusCode = Num 200 \<and> getField c ''method'' = JStr ''get''
                \<and> \<not> isArray response
                \<and> \<not> truthy (getField response ''data'') \<and> \<not> truthy (getField response ''items'')
                \<and> \<not> truthy (getField response ''results'')
             then [''GET 200 responses typically include data in a '' @ quoted ''data'' @ '', ''
                   @ quoted ''items'' @ '', or '' @ quoted ''results'' @ '' property or as an array'']
             else [])
            @ (if statusCode = Num 201 \<and> getField c ''method'' = JStr ''post''
                  \<and> typeof response = ''object''
                  \<and> \<not> truthy (getField response ''id'') \<and> \<not> truthy (getField response ''_id'')
               then [''Created resources typically include an '' @ quoted ''id'' @ '' or ''
                     @ quoted ''_id'' @ '' property'']
               else []),
            [(''responseSchemaExists'', JBool True), (''responseProvided'', JBool True)]))"

definition validateResponseAgainstContractTry ::
  "env \<Rightarrow> adapter \<Rightarrow> string \<Rightarrow> jsval \<Rightarrow> jsnum option \<Rightarrow> (js_error + validation_result) \<times> adapter" where
  "validateResponseAgainstContractTry e a contractPath response sc =
     (case readContract e a contractPath of
        (Inl err, a') \<Rightarrow> (Inl err, a')
      | (Inr info, a') \<Rightarrow>
          if \<not> truthy (contract info)
          then (Inr (notFoundResult ''Contract export not found in the file'' e contractPath info), a')
          else (case responseChecks e (contract info) response (defaultStatusCode sc) of
                  (errs, warns, det) \<Rightarrow>
                    (Inr (makeResult errs warns
                            ([(''contractName'', JStr (contractNameOf e contractPath)),
                              (''path'', JStr (path info)),
                              (''method'', getField (contract info) ''method''),
                              (''statusCode'', JNum (defaultStatusCode sc))] @ det)), a')))"

definition validateResponseAgainstContract ::
  "env \<Rightarrow> adapter \<Rightarrow> string \<Rightarrow> jsval \<Rightarrow> jsnum option \<Rightarrow> validation_result \<times> adapter" where
  "validateResponseAgainstContract e a contractPath response sc =
     (case validateResponseAgainstContractTry e a contractPath response sc of
        (Inl err, a') \<Rightarrow> (failedResult ''Failed to validate response'' err, a')
      | (Inr res, a') \<Rightarrow> (res, a'))"

subsection \<open>generateMockResponse\<close>








subsection \<open>A concrete environment\<close>

text \<open>
  A contracts directory \<^verbatim>\<open>/contracts\<close> that holds the single file \<^verbatim>\<open>user.ts\<close>, whose
  syntax tree is \<open>sf\<close>, with POSIX paths. Every other file is missing. Numbers print
  in decimal notation with all their digits, as JavaScript prints an integer below \<open>2^53\<close>
  in magnitude. An object converts to \<^verbatim>\<open>[object Object]\<close> when it inherits its
  \<^verbatim>\<open>toString\<close> from a built-in prototype; when a property of that name hides the
  function, or the chain of prototypes ends in \<^verbatim>\<open>null\<close>, no function gives a primitive
  value (\<^verbatim>\<open>valueOf\<close> is hidden or missing too, or returns the object itself) and the
  conversion throws.
\<close>

definition lastSegment :: "string \<Rightarrow> string" where
  "lastSegment p = rev (takeWhile (\<lambda>c. c \<noteq> CHR ''/'') (rev p))"

fun decimalNumber :: "jsnum \<Rightarrow> string" where
  "decimalNumber NaN = ''NaN''"
| "decimalNumber (Num i) = (if i < 0 then CHR ''-'' # natToString (nat (- i)) else natToString (nat i))"

definition ordinaryToString :: "jsval \<Rightarrow> js_error + string" where
  "ordinaryToString v =
     (if findProperty v ''toString'' = None \<and> ''toString'' \<in> set (builtinNames v)
      then Inr ''[object Object]''
      else Inl TypeErrorToPrimitive)"

definition posixEnv :: "source_file \<Rightarrow> env" where
  "posixEnv sf =
     \<lparr>path_isAbsolute = (\<lambda>p. prefix ''/'' p),
      path_resolve = (\<lambda>base file. base @ ''/'' @ file),
      path_basename = (\<lambda>p ext.
         if ext \<noteq> [] \<and> suffix ext (lastSegment p) \<and> ext \<noteq> lastSegment p
         then take (length (lastSegment p) - length ext) (lastSegment p)
         else lastSegment p),
      path_extname = (\<lambda>p.
         if CHR ''.'' \<in> set (tl (lastSegment p))
         then CHR ''.'' # rev (takeWhile (\<lambda>c. c \<noteq> CHR ''.'') (rev (lastSegment p)))
         else []),
      fs_readFile = (\<lambda>p.
         if p = ''/contracts/user.ts'' then Inr ''export const Contract = { };''
         else Inl (''ENOENT: no such file or directory, open '' @ [CHR 0x27] @ p @ [CHR 0x27])),
      fs_readdirSync = (\<lambda>d.
         if d = ''/contracts'' then Inr [''user.ts'']
         else Inl (''ENOENT: no such file or directory, scandir '' @ [CHR 0x27] @ d @ [CHR 0x27])),
      ts_createProgram = (\<lambda>fileNames p.
         if p \<in> set fileNames \<and> p = ''/contracts/user.ts'' then Some sf else None),
      ts_createSourceFile = (\<lambda>p text. []),
      js_numberToString = decimalNumber,
      js_objectToString = ordinaryToString\<rparr>"

definition freshAdapter :: adapter where
  "freshAdapter = \<lparr>contractsBasePath = ''/contracts'', program = None, typeChecker = None\<rparr>"

text \<open>A source file that declares \<^verbatim>\<open>Contract\<close> as the object literal with the properties \<open>ps\<close>.\<close>

definition contractFile :: "property list \<Rightarrow> source_file" where
  "contractFile ps =
     [VariableStatement [\<lparr>name = Identifier ''Contract'',
                          initializer = Some (ObjectLiteralExpression ps)\<rparr>]]"

text \<open>The contract of the repository's example file, \<^verbatim>\<open>/users/:userId\<close>.\<close>

definition userContract :: "property list" where
  "userContract =
     [PropertyAssignment ''path'' (StringLiteral ''/users/:userId''),
      PropertyAssignment ''method'' (StringLiteral ''get''),
      PropertyAssignment ''summary'' (StringLiteral ''Get user by ID''),
      PropertyAssignment ''description'' (StringLiteral ''Retrieve a user by their unique identifier''),
      PropertyAssignment ''tags'' (ArrayLiteralExpression [StringLiteral ''users'']),
      PropertyAssignment ''auth'' (ObjectLiteralExpression
        [PropertyAssignment ''requiresAuthentication'' TrueKeyword,
         PropertyAssignment ''authorization'' (ObjectLiteralExpression
           [PropertyAssignment ''roles''
              (ArrayLiteralExpression [StringLiteral ''user'', StringLiteral ''admin''])])]),
      PropertyAssignment ''params'' (OtherExpression ''ParamsSchema''),
      PropertyAssignment ''query'' (OtherExpression ''QuerySchema''),
      PropertyAssignment ''response'' (ObjectLiteralExpression
        [PropertyAssignment ''200'' (ObjectLiteralExpression
           [PropertyAssignment ''description'' (StringLiteral ''User found successfully''),
            PropertyAssignment ''schema'' (OtherExpression ''z.object({ user: UserSchema })'')]),
         PropertyAssignment ''400'' (ObjectLiteralExpression
           [PropertyAssignment ''description'' (StringLiteral ''Bad request, invalid parameters''),
            PropertyAssignment ''schema'' (OtherExpression ''ErrorSchema'')]),
         PropertyAssignment ''404'' (ObjectLiteralExpression
           [PropertyAssignment ''description'' (StringLiteral ''User not found''),
            PropertyAssignment ''schema'' (OtherExpression ''ErrorSchema'')])])]"

definition userEnv :: env where
  "userEnv = posixEnv (contractFile userContract)"

subsection \<open>Reading a result\<close>

text \<open>The errors and warnings a result carries; an absent list carries none.\<close>

definition collectedErrors :: "validation_result \<Rightarrow> string list" where
  "collectedErrors r = (case errors r of None \<Rightarrow> [] | Some es \<Rightarrow> es)"

definition collectedWarnings :: "validation_result \<Rightarrow> string list" where
  "collectedWarnings r = (case warnings r of None \<Rightarrow> [] | Some ws \<Rightarrow> ws)"

definition isMissingFieldError :: "string \<Rightarrow> bool" where
  "isMissingFieldError msg = prefix ''Missing required field'' msg"

definition isInvalidPathError :: "string \<Rightarrow> bool" where
  "isInvalidPathError msg = prefix ''Invalid path'' msg"

text \<open>An error about the response mapping of a contract.\<close>

definition isResponseError :: "string \<Rightarrow> bool" where
  "isResponseError msg =
     (prefix ''Invalid status code in response'' msg \<or> prefix ''Response object'' msg
      \<or> msg = ''Missing required field: response'')"

definition isMissingParamError :: "string \<Rightarrow> bool" where
  "isMissingParamError msg = prefix ''Missing required path parameter'' msg"

text \<open>
  A result is consistent when it reports success exactly when it carries no error, and never
  carries an empty list of errors.
\<close>

definition consistentResult :: "validation_result \<Rightarrow> bool" where
  "consistentResult r = (success r = (collectedErrors r = []) \<and> errors r \<noteq> Some [])"

text \<open>
  The three ways in which the checks of \<^verbatim>\<open>validateContract\<close> end in an exception: a
  method to be printed in an error whose conversion to a string throws; a truthy path that is
  not a string, on which \<^verbatim>\<open>startsWith\<close> is called; and an element of the claims array
  that is \<^verbatim>\<open>null\<close> or \<^verbatim>\<open>undefined\<close>, from which a property is read.
\<close>

definition methodIsPrintable :: "env \<Rightarrow> jsval \<Rightarrow> bool" where
  "methodIsPrintable e c =
     (\<not> truthy (getField c ''method'')
      \<or> getField c ''method'' \<in> set (map JStr [''get'', ''post'', ''put'', ''delete'', ''patch''])
      \<or> \<not> isl (toString e (getField c ''method'')))"

definition pathIsUsable :: "jsval \<Rightarrow> bool" where
  "pathIsUsable c = (\<not> truthy (getField c ''path'') \<or> typeof (getField c ''path'') = ''string'')"

definition hasNullClaim :: "jsval \<Rightarrow> bool" where
  "hasNullClaim c =
     (truthy (getField c ''auth'') \<and> truthy (getField (getField c ''auth'') ''authorization'')
      \<and> (case getField (getField (getField c ''auth'') ''authorization'') ''claims'' of
            JArr xs \<Rightarrow> list_ex (\<lambda>x. x = JNull \<or> x = JUndefined) xs
          | _ \<Rightarrow> False))"

text \<open>The checks of \<^verbatim>\<open>validateContract\<close> run to their end.\<close>

definition checksComplete :: "env \<Rightarrow> jsval \<Rightarrow> bool" where
  "checksComplete e c = (methodIsPrintable e c \<and> pathIsUsable c \<and> \<not> hasNullClaim c)"

text \<open>A value has a property when a read finds one, on the value or on its prototypes.\<close>

definition hasProperty :: "jsval \<Rightarrow> string \<Rightarrow> bool" where
  "hasProperty v k = (findProperty v k \<noteq> None \<or> k \<in> set (builtinNames v))"

section \<open>Properties\<close>

subsection \<open>Reading a contract\<close>

lemma ensureCompiler_base [simp]:
  "contractsBasePath (ensureCompiler e a) = contractsBasePath a"
  by (simp add: ensureCompiler_def initTypeScriptCompiler_def Let_def)

lemma resolveContractPath_base:
  "contractsBasePath b = contractsBasePath a \<Longrightarrow> resolveContractPath e b p = resolveContractPath e a p"
  by (simp add: resolveContractPath_def)

text \<open>Once the compiler has been set up, setting it up again changes nothing.\<close>

lemma ensureCompiler_idem [simp]:
  "ensureCompiler e (ensureCompiler e a) = ensureCompiler e a"
proof (cases "program a")
  case None
  show ?thesis
  proof (cases "length (findContractFiles e a) > 0")
    case True
    with None show ?thesis
      by (simp add: ensureCompiler_def initTypeScriptCompiler_def Let_def)
  next
    case False
    with None have "ensureCompiler e a = a"
      by (simp add: ensureCompiler_def initTypeScriptCompiler_def Let_def)
    then show ?thesis by simp
  qed
next
  case (Some prog)
  then show ?thesis
    by (simp add: ensureCompiler_def)
qed

text \<open>A second read in the same environment returns what the first returned.\<close>

lemma readContract_again:
  assumes "readContract e a p = (r, a')"
  shows "readContract e a' p = (r, a')"
proof (cases "fs_readFile e (resolveContractPath e a p)")
  case (Inl msg)
  with assms show ?thesis
    by (auto simp: readContract_def Let_def)
next
  case (Inr cnt)
  with assms have a': "a' = ensureCompiler e a"
    by (auto simp: readContract_def Let_def)
  have rp: "resolveContractPath e (ensureCompiler e a) p = resolveContractPath e a p"
    by (rule resolveContractPath_base) simp
  have "readContract e a p =
          (Inr (locateContract e (ensureCompiler e a) (resolveContractPath e a p) cnt),
           ensureCompiler e a)"
    using Inr by (simp add: readContract_def Let_def)
  moreover have "readContract e (ensureCompiler e a) p =
          (Inr (locateContract e (ensureCompiler e a) (resolveContractPath e a p) cnt),
           ensureCompiler e a)"
    using Inr rp by (simp add: readContract_def Let_def)
  ultimately show ?thesis using assms a' by simp
qed

lemma locateContract_sourceFile:
  "truthy (contract (locateContract e a rp cnt)) \<Longrightarrow> sourceFile (locateContract e a rp cnt) \<noteq> None"
  unfolding locateContract_def
  by (simp split: option.splits if_splits prod.splits)

lemma readContract_Inr:
  assumes "readContract e a p = (Inr info, a')"
  shows "\<exists>cnt. info = locateContract e a' (resolveContractPath e a p) cnt"
  using assms
  by (cases "fs_readFile e (resolveContractPath e a p)") (auto simp: readContract_def Let_def)

text \<open>A contract that was extracted comes with the source file it was extracted from.\<close>

lemma readContract_sourceFile:
  assumes "readContract e a p = (Inr info, a')" and "truthy (contract info)"
  shows "sourceFile info \<noteq> None"
  using readContract_Inr [OF assms(1)] assms(2) locateContract_sourceFile by blast

lemma readContract_unreadable:
  assumes "fs_readFile e (resolveContractPath e a p) = Inl msg"
  shows "readContract e a p =
           (Inl (Error (''Failed to read contract file '' @ resolveContractPath e a p @ '': '' @ msg)), a)"
  using assms by (simp add: readContract_def Let_def)

subsection \<open>Success and errors\<close>

lemma consistent_makeResult [simp]: "consistentResult (makeResult errs warns det)"
  by (simp add: consistentResult_def makeResult_def collectedErrors_def nonEmpty_def)

lemma consistent_failedResult [simp]: "consistentResult (failedResult what err)"
  by (simp add: consistentResult_def failedResult_def collectedErrors_def)

lemma consistent_notFoundResult [simp]: "consistentResult (notFoundResult msg e p info)"
  by (simp add: consistentResult_def notFoundResult_def collectedErrors_def)

lemma consistent_validateContract: "consistentResult (fst (validateContract e a p))"
  by (simp add: validateContract_def validateContractTry_def split: prod.splits sum.splits)

lemma consistent_validateRequestType: "consistentResult (fst (validateRequestType e a p))"
  by (simp add: validateRequestType_def validateRequestTypeTry_def
           split: prod.splits sum.splits option.splits)

lemma consistent_validateResponseType: "consistentResult (fst (validateResponseType e a p))"
  by (simp add: validateResponseType_def validateResponseTypeTry_def
           split: prod.splits sum.splits option.splits)

lemma consistent_validateRequestAgainstContract:
  "consistentResult (fst (validateRequestAgainstContract e a p request))"
  by (simp add: validateRequestAgainstContract_def validateRequestAgainstContractTry_def
           split: prod.splits sum.splits)

lemma consistent_validateResponseAgainstContract:
  "consistentResult (fst (validateResponseAgainstContract e a p response sc))"
  by (simp add: validateResponseAgainstContract_def validateResponseAgainstContractTry_def
           split: prod.splits sum.splits)

text \<open>
  Claim C3. Every result of \<^verbatim>\<open>validateContract\<close>, \<^verbatim>\<open>validateRequestType\<close>,
  \<^verbatim>\<open>validateResponseType\<close>, \<^verbatim>\<open>validateRequestAgainstContract\<close> and
  \<^verbatim>\<open>validateResponseAgainstContract\<close> reports success if and only if it carries no error,
  on every path through the function: the early returns, the normal return and the
  \<^verbatim>\<open>catch\<close> block. The warnings play no part: two results built from the same errors
  agree on success whatever their warnings are.
\<close>

theorem success_iff_no_errors:
  "(success (fst (validateContract e a p)) = (collectedErrors (fst (validateContract e a p)) = []))
 \<and> (success (fst (validateRequestType e a p)) = (collectedErrors (fst (validateRequestType e a p)) = []))
 \<and> (success (fst (validateResponseType e a p)) = (collectedErrors (fst (validateResponseType e a p)) = []))
 \<and> (success (fst (validateRequestAgainstContract e a p request))
      = (collectedErrors (fst (validateRequestAgainstContract e a p request)) = []))
 \<and> (success (fst (validateResponseAgainstContract e a p response sc))
      = (collectedErrors (fst (validateResponseAgainstContract e a p response sc)) = []))
 \<and> success (makeResult errs warns det) = success (makeResult errs warns' det)"
  using consistent_validateContract [of e a p] consistent_validateRequestType [of e a p]
    consistent_validateResponseType [of e a p]
    consistent_validateRequestAgainstContract [of e a p request]
    consistent_validateResponseAgainstContract [of e a p response sc]
  by (simp add: consistentResult_def makeResult_def)

text \<open>
  On the example contract: the contract is valid, its response type is accepted with two
  warnings, and a request without the path parameter is refused with one error.
\<close>

theorem success_iff_no_errors_witness:
  "success (fst (validateContract userEnv freshAdapter ''user.ts''))
 \<and> collectedErrors (fst (validateContract userEnv freshAdapter ''user.ts'')) = []
 \<and> collectedWarnings (fst (validateResponseType userEnv freshAdapter ''user.ts''))
     = [''ResponseSchema is not exported, which may make it difficult to reuse'',
        ''Response type is not exported'']
 \<and> success (fst (validateResponseType userEnv freshAdapter ''user.ts''))
 \<and> \<not> success (fst (validateRequestAgainstContract userEnv freshAdapter ''user.ts''
                   (JObj [(''params'', JObj [])])))
 \<and> collectedErrors (fst (validateRequestAgainstContract userEnv freshAdapter ''user.ts''
                          (JObj [(''params'', JObj [])])))
     = [''Missing required path parameter: userId'']"
proof -
  have w: "collectedWarnings (fst (validateResponseType userEnv freshAdapter ''user.ts''))
     = [''ResponseSchema is not exported, which may make it difficult to reuse'',
        ''Response type is not exported'']"
    by code_simp
  have e1: "collectedErrors (fst (validateContract userEnv freshAdapter ''user.ts'')) = []"
    by code_simp
  have e2: "collectedErrors (fst (validateResponseType userEnv freshAdapter ''user.ts'')) = []"
    by code_simp
  have e3: "collectedErrors (fst (validateRequestAgainstContract userEnv freshAdapter ''user.ts''
                                (JObj [(''params'', JObj [])])))
     = [''Missing required path parameter: userId'']"
    by code_simp
  show ?thesis
    using success_iff_no_errors [of userEnv freshAdapter "''user.ts''" "JObj [(''params'', JObj [])]"]
      w e1 e2 e3
    by simp
qed

subsection \<open>Unreadable contract files\<close>

text \<open>
  Claim C5. When the contract file cannot be read, each of the five validating operations
  returns a failed result that carries exactly one error, the operation's own prefix before
  the message of \<^verbatim>\<open>readContract\<close>, and nothing else. The operations are total functions
  of the model: the exception ends in the \<^verbatim>\<open>catch\<close> block and never reaches the caller.
\<close>

theorem unreadable_contract_fails:
  assumes "fs_readFile e (resolveContractPath e a p) = Inl msg"
  shows "fst (validateContract e a p) =
           \<lparr>success = False,
            errors = Some [''Failed to validate contract: Failed to read contract file ''
                           @ resolveContractPath e a p @ '': '' @ msg],
            warnings = None, details = None\<rparr>
       \<and> fst (validateRequestType e a p) =
           \<lparr>success = False,
            errors = Some [''Failed to validate request type: Failed to read contract file ''
                           @ resolveContractPath e a p @ '': '' @ msg],
            warnings = None, details = None\<rparr>
       \<and> fst (validateResponseType e a p) =
           \<lparr>success = False,
            errors = Some [''Failed to validate response type: Failed to read contract file ''
                           @ resolveContractPath e a p @ '': '' @ msg],
            warnings = None, details = None\<rparr>
       \<and> fst (validateRequestAgainstContract e a p request) =
           \<lparr>success = False,
            errors = Some [''Failed to validate request: Failed to read contract file ''
                           @ resolveContractPath e a p @ '': '' @ msg],
            warnings = None, details = None\<rparr>
       \<and> fst (validateResponseAgainstContract e a p response sc) =
           \<lparr>success = False,
            errors = Some [''Failed to validate response: Failed to read contract file ''
                           @ resolveContractPath e a p @ '': '' @ msg],
            warnings = None, details = None\<rparr>"
  using readContract_unreadable [OF assms]
  by (simp add: validateContract_def validateContractTry_def
        validateRequestType_def validateRequestTypeTry_def
        validateResponseType_def validateResponseTypeTry_def
        validateRequestAgainstContract_def validateRequestAgainstContractTry_def
        validateResponseAgainstContract_def validateResponseAgainstContractTry_def failedResult_def)

theorem unreadable_contract_fails_witness:
  "fs_readFile userEnv (resolveContractPath userEnv freshAdapter ''missing.ts'')
     = Inl (''ENOENT: no such file or directory, open '' @ [CHR 0x27] @ ''/contracts/missing.ts''
            @ [CHR 0x27])
 \<and> fst (validateContract userEnv freshAdapter ''missing.ts'') =
       \<lparr>success = False,
        errors = Some [''Failed to validate contract: Failed to read contract file /contracts/missing.ts: ''
                       @ ''ENOENT: no such file or directory, open '' @ [CHR 0x27]
                       @ ''/contracts/missing.ts'' @ [CHR 0x27]],
        warnings = None, details = None\<rparr>"
proof -
  have h: "fs_readFile userEnv (resolveContractPath userEnv freshAdapter ''missing.ts'')
     = Inl (''ENOENT: no such file or directory, open '' @ [CHR 0x27] @ ''/contracts/missing.ts''
            @ [CHR 0x27])"
    by code_simp
  have r: "resolveContractPath userEnv freshAdapter ''missing.ts'' = ''/contracts/missing.ts''"
    by code_simp
  show ?thesis
    using h unreadable_contract_fails [OF h] by (simp add: r)
qed

subsection \<open>Validating twice\<close>

text \<open>
  Claim C8. A second call of \<^verbatim>\<open>validateContract\<close> on the same contract location, in the
  same environment (the same files with the same content) and in the state the first call
  left the adapter in, returns the result of the first call: the same success, errors,
  warnings and details. The first call may have set up the compiler; the second then reuses it.
\<close>

theorem validateContract_idempotent:
  "fst (validateContract e (snd (validateContract e a p)) p) = fst (validateContract e a p)"
proof -
  obtain rc a1 where rc: "readContract e a p = (rc, a1)"
    by (cases "readContract e a p")
  then have rc': "readContract e a1 p = (rc, a1)"
    by (rule readContract_again)
  have "snd (validateContract e a p) = a1"
    using rc by (simp add: validateContract_def validateContractTry_def split: sum.splits prod.splits)
  moreover have "validateContract e a1 p = validateContract e a p"
    by (simp add: validateContract_def validateContractTry_def rc rc')
  ultimately show ?thesis by simp
qed

text \<open>On the example contract the first call sets up the compiler of a fresh adapter.\<close>

theorem validateContract_idempotent_witness:
  "fst (validateContract userEnv (snd (validateContract userEnv freshAdapter ''user.ts'')) ''user.ts'')
     = fst (validateContract userEnv freshAdapter ''user.ts'')
   \<and> program (snd (validateContract userEnv freshAdapter ''user.ts'')) \<noteq> None
   \<and> program freshAdapter = None"
proof -
  have "program (snd (validateContract userEnv freshAdapter ''user.ts'')) \<noteq> None"
    by code_simp
  moreover have "program freshAdapter = None"
    by code_simp
  ultimately show ?thesis
    using validateContract_idempotent [of userEnv freshAdapter "''user.ts''"] by simp
qed

subsection \<open>From the contract reference to the checks\<close>

text \<open>A contract that is truthy was extracted from a file that could be read and parsed.\<close>

lemma contractOf_truthy:
  assumes "truthy (contractOf e a p)"
  obtains info a' sf where "readContract e a p = (Inr info, a')"
    and "contract info = contractOf e a p" and "sourceFile info = Some sf"
proof -
  obtain rc a' where rc: "readContract e a p = (rc, a')"
    by (cases "readContract e a p")
  with assms obtain info where info: "rc = Inr info" and c: "contract info = contractOf e a p"
    by (cases rc) (auto simp: contractOf_def)
  from rc info have r: "readContract e a p = (Inr info, a')" by simp
  from assms c have "truthy (contract info)" by simp
  from readContract_sourceFile [OF r this] obtain sf where "sourceFile info = Some sf"
    by auto
  with r c that show thesis by blast
qed

lemma collectedErrors_makeResult [simp]: "collectedErrors (makeResult errs warns det) = errs"
  by (simp add: collectedErrors_def makeResult_def nonEmpty_def)

lemma collectedWarnings_makeResult [simp]: "collectedWarnings (makeResult errs warns det) = warns"
  by (simp add: collectedWarnings_def makeResult_def nonEmpty_def)

lemma collectedErrors_failedResult [simp]:
  "collectedErrors (failedResult what err) = [what @ '': '' @ message err]"
  by (simp add: collectedErrors_def failedResult_def)

lemma collectedWarnings_failedResult [simp]: "collectedWarnings (failedResult what err) = []"
  by (simp add: collectedWarnings_def failedResult_def)

lemma validateContract_errors:
  assumes "truthy (contractOf e a p)"
  shows "collectedErrors (fst (validateContract e a p)) =
           (case contractChecks e (contractOf e a p) of
              Inl err \<Rightarrow> [''Failed to validate contract: '' @ message err]
            | Inr (errs, warns) \<Rightarrow> errs)"
proof -
  from assms obtain info a' sf where r: "readContract e a p = (Inr info, a')"
    and c: "contract info = contractOf e a p" and "sourceFile info = Some sf"
    by (rule contractOf_truthy)
  show ?thesis
    using assms r c
    by (simp add: validateContract_def validateContractTry_def split: sum.splits prod.splits)
qed

lemma validateRequestAgainstContract_result:
  assumes "truthy (contractOf e a p)"
  shows "collectedErrors (fst (validateRequestAgainstContract e a p request)) =
           (case requestChecks (contractOf e a p) request of
              Inl err \<Rightarrow> [''Failed to validate request: '' @ message err]
            | Inr (errs, warns, det) \<Rightarrow> errs)
       \<and> collectedWarnings (fst (validateRequestAgainstContract e a p request)) =
           (case requestChecks (contractOf e a p) request of
              Inl err \<Rightarrow> []
            | Inr (errs, warns, det) \<Rightarrow> warns)"
proof -
  from assms obtain info a' sf where r: "readContract e a p = (Inr info, a')"
    and c: "contract info = contractOf e a p" and "sourceFile info = Some sf"
    by (rule contractOf_truthy)
  show ?thesis
    using assms r c
    by (simp add: validateRequestAgainstContract_def validateRequestAgainstContractTry_def
          split: sum.splits prod.splits)
qed

subsection \<open>Reading a property\<close>

text \<open>
  No built-in prototype has a member under a name the adapter reads with \<open>getField\<close>: for
  these names the read finds what \<open>findProperty\<close> finds, or \<^verbatim>\<open>undefined\<close>.
\<close>

lemma fieldNames_not_builtin:
  "\<forall>k \<in> set fieldNames.
     k \<notin> set (objectPrototypeNames @ arrayPrototypeNames @ stringPrototypeNames
                @ numberPrototypeNames @ booleanPrototypeNames)"
  by (simp add: fieldNames_def objectPrototypeNames_def arrayPrototypeNames_def
        stringPrototypeNames_def numberPrototypeNames_def booleanPrototypeNames_def)

lemma builtinNames_subset:
  "set (builtinNames v) \<subseteq> set (objectPrototypeNames @ arrayPrototypeNames @ stringPrototypeNames
                @ numberPrototypeNames @ booleanPrototypeNames)"
  by (induction v) auto

text \<open>
  Under such a name the value that \<open>getField\<close> returns decides the two tests of a read as
  the read itself does.
\<close>

lemma getField_reads:
  assumes "k \<in> set fieldNames"
  shows "readsUndefined v k = (getField v k = JUndefined)"
    and "readsTruthy v k = truthy (getField v k)"
proof -
  from assms have "k \<notin> set (builtinNames v)"
    using fieldNames_not_builtin builtinNames_subset by blast
  then show "readsUndefined v k = (getField v k = JUndefined)"
    and "readsTruthy v k = truthy (getField v k)"
    by (simp_all add: readsUndefined_def readsTruthy_def getField_def split: option.splits)
qed

lemma getField_undefined: "\<not> hasProperty v k \<Longrightarrow> getField v k = JUndefined"
  by (simp add: hasProperty_def getField_def)

subsection \<open>A contract without a path\<close>

text \<open>
  Claim C10. When the contract extracted from a readable file has no \<^verbatim>\<open>path\<close> property,
  neither of its own nor inherited from a prototype that the contract sets through
  \<^verbatim>\<open>__proto__\<close>, \<^verbatim>\<open>validateRequestType\<close> returns a failed result whose only error
  starts with \<^verbatim>\<open>Failed to validate request type\<close>: reading \<^verbatim>\<open>match\<close> from the missing
  path throws inside the \<^verbatim>\<open>try\<close> block and the \<^verbatim>\<open>catch\<close> block turns the exception
  into the result. There is no \<^verbatim>\<open>Missing required field\<close> error, no warning and no
  details, and the function returns normally.
\<close>

theorem validateRequestType_without_path:
  assumes "truthy (contractOf e a p)" and "\<not> hasProperty (contractOf e a p) ''path''"
  shows "fst (validateRequestType e a p) =
           \<lparr>success = False,
            errors = Some [''Failed to validate request type: Cannot read properties of undefined (reading ''
                           @ [CHR 0x27] @ ''match'' @ [CHR 0x27] @ '')''],
            warnings = None, details = None\<rparr>"
proof -
  from assms(1) obtain info a' sf where r: "readContract e a p = (Inr info, a')"
    and c: "contract info = contractOf e a p" and sf: "sourceFile info = Some sf"
    by (rule contractOf_truthy)
  from assms(2) have "getField (contractOf e a p) ''path'' = JUndefined"
    by (rule getField_undefined)
  then have "requestTypeChecks sf (contractOf e a p) = Inl (TypeErrorReadProperty ''undefined'' ''match'')"
    by (simp add: requestTypeChecks_def)
  then show ?thesis
    using r c sf assms(1)
    by (simp add: validateRequestType_def validateRequestTypeTry_def failedResult_def)
qed

text \<open>
  A contract that declares only its method has no path. A contract that sets its prototype
  to an object with a path has one, and the function does not fail on it.
\<close>

theorem validateRequestType_without_path_witness:
  "truthy (contractOf (posixEnv (contractFile [PropertyAssignment ''method'' (StringLiteral ''post'')]))
     freshAdapter ''user.ts'')
 \<and> \<not> hasProperty (contractOf (posixEnv (contractFile [PropertyAssignment ''method'' (StringLiteral ''post'')]))
     freshAdapter ''user.ts'') ''path''
 \<and> fst (validateRequestType (posixEnv (contractFile [PropertyAssignment ''method'' (StringLiteral ''post'')]))
          freshAdapter ''user.ts'') =
           \<lparr>success = False,
            errors = Some [''Failed to validate request type: Cannot read properties of undefined (reading ''
                           @ [CHR 0x27] @ ''match'' @ [CHR 0x27] @ '')''],
            warnings = None, details = None\<rparr>
 \<and> hasProperty (contractOf (posixEnv (contractFile
       [PropertyAssignment ''__proto__'' (ObjectLiteralExpression
          [PropertyAssignment ''path'' (StringLiteral ''/users'')]),
        PropertyAssignment ''method'' (StringLiteral ''post'')]))
     freshAdapter ''user.ts'') ''path''
 \<and> success (fst (validateRequestType (posixEnv (contractFile
       [PropertyAssignment ''__proto__'' (ObjectLiteralExpression
          [PropertyAssignment ''path'' (StringLiteral ''/users'')]),
        PropertyAssignment ''method'' (StringLiteral ''post'')]))
     freshAdapter ''user.ts''))"
proof -
  let ?e = "posixEnv (contractFile [PropertyAssignment ''method'' (StringLiteral ''post'')])"
  let ?e2 = "posixEnv (contractFile
       [PropertyAssignment ''__proto__'' (ObjectLiteralExpression
          [PropertyAssignment ''path'' (StringLiteral ''/users'')]),
        PropertyAssignment ''method'' (StringLiteral ''post'')])"
  have t: "truthy (contractOf ?e freshAdapter ''user.ts'')"
    by code_simp
  have k: "\<not> hasProperty (contractOf ?e freshAdapter ''user.ts'') ''path''"
    by code_simp
  have h2: "hasProperty (contractOf ?e2 freshAdapter ''user.ts'') ''path''"
    by code_simp
  have s2: "success (fst (validateRequestType ?e2 freshAdapter ''user.ts''))"
    by code_simp
  show ?thesis
    using t k h2 s2 validateRequestType_without_path [OF t k] by simp
qed

subsection \<open>The status code of a mock\<close>





subsection \<open>The errors of the contract checks\<close>

lemma contractChecks_Inr:
  assumes "contractChecks e c = Inr (errs, warns)"
  obtains methodErrs pathErrs authErrs where "methodErrors e c = Inr methodErrs"
    and "pathErrors c = Inr pathErrs" and "authErrors c = Inr authErrs"
    and "errs = requiredFieldErrors c @ methodErrs @ pathErrs @ responseErrors c @ authErrs"
  using assms by (auto simp: contractChecks_def split: sum.splits)

text \<open>Each group of checks words its errors in its own way.\<close>

lemma claimErrors_start:
  "claimErrors i xs = Inr es \<Longrightarrow> \<forall>m \<in> set es. prefix ''Claim at index '' m"
proof (induction xs arbitrary: i es)
  case Nil
  then show ?case by simp
next
  case (Cons x xs)
  then show ?case
    by (auto split: sum.splits if_splits)
qed

lemma stringOrArrayErrors_start:
  "\<forall>m \<in> set (stringOrArrayErrors what v). prefix ''Authorization '' m"
  by (simp add: stringOrArrayErrors_def)

lemma claimsErrors_start:
  assumes "claimsErrors v = Inr cs"
  shows "\<forall>m \<in> set cs. prefix ''Authorization '' m \<or> prefix ''Claim at index '' m"
proof (cases v)
  case (JArr xs)
  with assms have "claimErrors 0 xs = Inr cs"
    by (simp add: claimsErrors_def)
  then show ?thesis
    using claimErrors_start by blast
qed (use assms in \<open>auto simp: claimsErrors_def split: if_splits\<close>)

lemma authErrors_start:
  assumes "authErrors c = Inr es"
  shows "\<forall>m \<in> set es. prefix ''Authorization '' m \<or> prefix ''Claim at index '' m"
proof (cases "truthy (getField c ''auth'') \<and> truthy (getField (getField c ''auth'') ''authorization'')")
  case True
  let ?z = "getField (getField c ''auth'') ''authorization''"
  from True assms obtain cs where cs: "claimsErrors (getField ?z ''claims'') = Inr cs"
    and es: "es = stringOrArrayErrors ''roles'' (getField ?z ''roles'')
                  @ stringOrArrayErrors ''scopes'' (getField ?z ''scopes'') @ cs"
    by (auto simp: authErrors_def Let_def split: sum.splits)
  show ?thesis
    unfolding es using claimsErrors_start [OF cs] stringOrArrayErrors_start
    by auto
next
  case False
  with assms have "es = []"
    by (auto simp: authErrors_def Let_def split: if_splits)
  then show ?thesis by simp
qed

lemma pathErrors_start:
  "pathErrors c = Inr es \<Longrightarrow> \<forall>m \<in> set es. prefix ''Invalid path: '' m"
  by (auto simp: pathErrors_def Let_def split: if_splits jsval.splits)

lemma methodErrors_start:
  "methodErrors e c = Inr es \<Longrightarrow> \<forall>m \<in> set es. prefix ''Invalid method: '' m"
  by (auto simp: methodErrors_def Let_def split: if_splits sum.splits)

lemma responseErrors_start: "\<forall>m \<in> set (responseErrors c). isResponseError m"
  by (auto simp: responseErrors_def Let_def isResponseError_def invalidStatusMessage_def)

lemma responseErrors_cases:
  "\<forall>m \<in> set (responseErrors c).
     prefix ''Invalid status code in response: '' m \<or> prefix ''Response object '' m"
  by (auto simp: responseErrors_def Let_def invalidStatusMessage_def)

lemma requiredFieldErrors_start: "\<forall>m \<in> set (requiredFieldErrors c). isMissingFieldError m"
  by (auto simp: requiredFieldErrors_def isMissingFieldError_def missingFieldMessage_def)

lemma requiredFieldErrors_member:
  "field \<in> set requiredFields \<Longrightarrow> \<not> truthy (getField c field)
     \<Longrightarrow> missingFieldMessage field \<in> set (requiredFieldErrors c)"
  by (simp add: requiredFieldErrors_def)

lemma requiredFieldErrors_response:
  assumes "truthy (getField c ''response'')"
  shows "\<forall>m \<in> set (requiredFieldErrors c).
           m = ''Missing required field: path'' \<or> m = ''Missing required field: method''"
  using assms
  by (auto simp: requiredFieldErrors_def requiredFields_def missingFieldMessage_def)

lemma filter_none: "\<forall>m \<in> set xs. \<not> P m \<Longrightarrow> filter P xs = []"
  by (induction xs) auto

lemma filter_all: "\<forall>m \<in> set xs. P m \<Longrightarrow> filter P xs = xs"
  by (induction xs) auto

lemma not_missing:
  "prefix ''Invalid method: '' m \<or> prefix ''Invalid path: '' m
     \<or> prefix ''Invalid status code in response: '' m \<or> prefix ''Response object '' m
     \<or> prefix ''Authorization '' m \<or> prefix ''Claim at index '' m \<Longrightarrow> \<not> isMissingFieldError m"
  by (auto simp: isMissingFieldError_def prefix_def)

lemma not_response:
  "prefix ''Invalid method: '' m \<or> prefix ''Invalid path: '' m
     \<or> prefix ''Authorization '' m \<or> prefix ''Claim at index '' m
     \<or> m = ''Missing required field: path'' \<or> m = ''Missing required field: method''
   \<Longrightarrow> \<not> isResponseError m"
  by (auto simp: isResponseError_def prefix_def)

lemma not_invalid_path:
  "prefix ''Invalid method: '' m \<or> isMissingFieldError m
     \<or> prefix ''Invalid status code in response: '' m \<or> prefix ''Response object '' m
     \<or> prefix ''Authorization '' m \<or> prefix ''Claim at index '' m
     \<or> prefix ''Failed to validate contract'' m \<Longrightarrow> \<not> isInvalidPathError m"
  by (auto simp: isInvalidPathError_def isMissingFieldError_def prefix_def)

text \<open>When the checks end in an exception.\<close>

lemma claimErrors_isl:
  "isl (claimErrors i xs) = list_ex (\<lambda>x. x = JNull \<or> x = JUndefined) xs"
proof (induction xs arbitrary: i)
  case Nil
  then show ?case by simp
next
  case (Cons x xs)
  show ?case
    using Cons.IH [of "Suc i"]
    by (cases x) (auto split: sum.splits)
qed

lemma claimsErrors_isl:
  "isl (claimsErrors v) =
     (case v of JArr xs \<Rightarrow> list_ex (\<lambda>x. x = JNull \<or> x = JUndefined) xs | _ \<Rightarrow> False)"
  by (cases v) (simp_all add: claimsErrors_def claimErrors_isl)

lemma isl_case_sum [simp]: "isl (case x of Inl err \<Rightarrow> Inl err | Inr y \<Rightarrow> Inr (f y)) = isl x"
  by (cases x) simp_all

lemma authErrors_isl: "isl (authErrors c) = hasNullClaim c"
  by (simp add: authErrors_def hasNullClaim_def claimsErrors_isl Let_def)

lemma pathErrors_isl: "isl (pathErrors c) = (\<not> pathIsUsable c)"
  by (auto simp: pathErrors_def pathIsUsable_def Let_def split: jsval.splits)

lemma pathParamWarnings_isl: "isl (pathParamWarnings c) = (\<not> pathIsUsable c)"
  by (cases "getField c ''path''") (auto simp: pathParamWarnings_def pathIsUsable_def)

lemma methodErrors_isl: "isl (methodErrors e c) = (\<not> methodIsPrintable e c)"
  by (auto simp: methodErrors_def methodIsPrintable_def Let_def)

text \<open>The checks end in an exception exactly when they do not run to their end.\<close>

lemma contractChecks_isl: "isl (contractChecks e c) = (\<not> checksComplete e c)"
  using methodErrors_isl [of e c] pathErrors_isl [of c] authErrors_isl [of c]
    pathParamWarnings_isl [of c]
  by (auto simp: contractChecks_def checksComplete_def split: sum.splits)

lemma contractChecks_complete:
  assumes "checksComplete e c"
  obtains methodErrs pathErrs authErrs warns where "methodErrors e c = Inr methodErrs"
    and "pathErrors c = Inr pathErrs" and "authErrors c = Inr authErrs"
    and "contractChecks e c =
           Inr (requiredFieldErrors c @ methodErrs @ pathErrs @ responseErrors c @ authErrs, warns)"
proof -
  from assms have "\<not> isl (contractChecks e c)"
    by (simp add: contractChecks_isl)
  then obtain errs warns where "contractChecks e c = Inr (errs, warns)"
    by (cases "contractChecks e c") auto
  then show thesis
    using that by (auto simp: contractChecks_def split: sum.splits)
qed

text \<open>The errors of one kind among the errors of a run that completes.\<close>

lemma missing_of_checks:
  assumes "methodErrors e c = Inr methodErrs"
    and "pathErrors c = Inr pathErrs" and "authErrors c = Inr authErrs"
  shows "filter isMissingFieldError
           (requiredFieldErrors c @ methodErrs @ pathErrs @ responseErrors c @ authErrs)
         = requiredFieldErrors c"
proof -
  have "filter isMissingFieldError methodErrs = []"
    using methodErrors_start [OF assms(1)] not_missing by (intro filter_none) blast
  moreover have "filter isMissingFieldError pathErrs = []"
    using pathErrors_start [OF assms(2)] not_missing by (intro filter_none) blast
  moreover have "filter isMissingFieldError (responseErrors c) = []"
    using responseErrors_cases [of c] not_missing by (intro filter_none) blast
  moreover have "filter isMissingFieldError authErrs = []"
    using authErrors_start [OF assms(3)] not_missing by (intro filter_none) blast
  moreover have "filter isMissingFieldError (requiredFieldErrors c) = requiredFieldErrors c"
    using requiredFieldErrors_start by (rule filter_all)
  ultimately show ?thesis by simp
qed

lemma response_of_checks:
  assumes "methodErrors e c = Inr methodErrs"
    and "pathErrors c = Inr pathErrs" and "authErrors c = Inr authErrs"
    and "truthy (getField c ''response'')"
  shows "filter isResponseError
           (requiredFieldErrors c @ methodErrs @ pathErrs @ responseErrors c @ authErrs)
         = responseErrors c"
proof -
  have "filter isResponseError methodErrs = []"
    using methodErrors_start [OF assms(1)] not_response by (intro filter_none) blast
  moreover have "filter isResponseError pathErrs = []"
    using pathErrors_start [OF assms(2)] not_response by (intro filter_none) blast
  moreover have "filter isResponseError (requiredFieldErrors c) = []"
    using requiredFieldErrors_response [OF assms(4)] not_response by (intro filter_none) blast
  moreover have "filter isResponseError authErrs = []"
    using authErrors_start [OF assms(3)] not_response by (intro filter_none) blast
  moreover have "filter isResponseError (responseErrors c) = responseErrors c"
    using responseErrors_start by (rule filter_all)
  ultimately show ?thesis by simp
qed

lemma invalidStatusCode_iff:
  "invalidStatusCode key = (case parseInt10 key of NaN \<Rightarrow> True | Num n \<Rightarrow> n < 100 \<or> 599 < n)"
  by (simp add: invalidStatusCode_def isNaN_def Let_def split: jsnum.splits)

subsection \<open>Required fields\<close>

text \<open>
  Claim C1, as the code has it. The test for a required field is \<^verbatim>\<open>!contract[field]\<close>: a
  field counts as missing when the value read under its name is falsy, be the property
  absent (on the contract and on the prototypes it sets) or present with a falsy value. For
  every extracted contract in which \<^verbatim>\<open>path\<close>, \<^verbatim>\<open>method\<close> or \<^verbatim>\<open>response\<close> is missing in
  this sense, \<^verbatim>\<open>validateContract\<close> returns a result without success; and when the checks
  run to their end (\<open>checksComplete\<close>: no exception ends them), the errors that start
  with \<^verbatim>\<open>Missing required field\<close> are exactly one per missing field, in the order path,
  method, response, and none for a field whose value is truthy.
\<close>

theorem missing_required_fields:
  assumes "truthy (contractOf e a p)"
    and "\<exists>field \<in> set requiredFields. \<not> truthy (getField (contractOf e a p) field)"
  shows "\<not> success (fst (validateContract e a p))
       \<and> (checksComplete e (contractOf e a p) \<longrightarrow>
            filter isMissingFieldError (collectedErrors (fst (validateContract e a p)))
            = map missingFieldMessage
                (filter (\<lambda>field. \<not> truthy (getField (contractOf e a p) field)) requiredFields))"
proof -
  let ?c = "contractOf e a p"
  let ?r = "fst (validateContract e a p)"
  from assms(2) have req: "requiredFieldErrors ?c \<noteq> []"
    using requiredFieldErrors_member by fastforce
  have "collectedErrors ?r \<noteq> []"
  proof (cases "contractChecks e ?c")
    case (Inl err)
    then show ?thesis by (simp add: validateContract_errors [OF assms(1)])
  next
    case (Inr res)
    then obtain errs warns where res: "contractChecks e ?c = Inr (errs, warns)"
      by (cases res) simp
    then have "errs \<noteq> []"
      using req by (auto elim: contractChecks_Inr)
    with res show ?thesis by (simp add: validateContract_errors [OF assms(1)])
  qed
  then have fails: "\<not> success ?r"
    using consistent_validateContract [of e a p] by (simp add: consistentResult_def)
  have "filter isMissingFieldError (collectedErrors ?r) = requiredFieldErrors ?c"
    if "checksComplete e ?c"
  proof -
    from that obtain methodErrs pathErrs authErrs warns where me: "methodErrors e ?c = Inr methodErrs"
      and pe: "pathErrors ?c = Inr pathErrs"
      and ae: "authErrors ?c = Inr authErrs"
      and cc: "contractChecks e ?c =
           Inr (requiredFieldErrors ?c @ methodErrs @ pathErrs @ responseErrors ?c @ authErrs, warns)"
      by (rule contractChecks_complete)
    show ?thesis
      by (simp add: validateContract_errors [OF assms(1)] cc missing_of_checks [OF me pe ae]
            del: filter_append)
  qed
  with fails show ?thesis
    by (simp add: requiredFieldErrors_def)
qed

text \<open>
  The claim as the specification words it fails on a contract that declares only
  \<^verbatim>\<open>path: ''\<close>: the field \<^verbatim>\<open>path\<close> is present, and it is reported missing.
\<close>

theorem missing_required_fields_counterexample:
  "''path'' \<in> set (objectKeys (contractOf
       (posixEnv (contractFile [PropertyAssignment ''path'' (StringLiteral '''')]))
       freshAdapter ''user.ts''))
 \<and> collectedErrors (fst (validateContract
       (posixEnv (contractFile [PropertyAssignment ''path'' (StringLiteral '''')]))
       freshAdapter ''user.ts''))
     = [''Missing required field: path'', ''Missing required field: method'',
        ''Missing required field: response'']"
  by code_simp

text \<open>
  A contract whose method is the empty string and whose path and response are inherited from
  the prototype it sets: the method alone is reported missing.
\<close>

theorem missing_required_fields_witness:
  "truthy (contractOf (posixEnv (contractFile
       [PropertyAssignment ''__proto__'' (ObjectLiteralExpression
          [PropertyAssignment ''path'' (StringLiteral ''/users''),
           PropertyAssignment ''response'' (ObjectLiteralExpression
             [PropertyAssignment ''200'' (ObjectLiteralExpression [])])]),
        PropertyAssignment ''method'' (StringLiteral '''')])) freshAdapter ''user.ts'')
 \<and> ''method'' \<in> set requiredFields
 \<and> \<not> truthy (getField (contractOf (posixEnv (contractFile
       [PropertyAssignment ''__proto__'' (ObjectLiteralExpression
          [PropertyAssignment ''path'' (StringLiteral ''/users''),
           PropertyAssignment ''response'' (ObjectLiteralExpression
             [PropertyAssignment ''200'' (ObjectLiteralExpression [])])]),
        PropertyAssignment ''method'' (StringLiteral '''')])) freshAdapter ''user.ts'') ''method'')
 \<and> checksComplete (posixEnv (contractFile
       [PropertyAssignment ''__proto__'' (ObjectLiteralExpression
          [PropertyAssignment ''path'' (StringLiteral ''/users''),
           PropertyAssignment ''response'' (ObjectLiteralExpression
             [PropertyAssignment ''200'' (ObjectLiteralExpression [])])]),
        PropertyAssignment ''method'' (StringLiteral '''')]))
     (contractOf (posixEnv (contractFile
       [PropertyAssignment ''__proto__'' (ObjectLiteralExpression
          [PropertyAssignment ''path'' (StringLiteral ''/users''),
           PropertyAssignment ''response'' (ObjectLiteralExpression
             [PropertyAssignment ''200'' (ObjectLiteralExpression [])])]),
        PropertyAssignment ''method'' (StringLiteral '''')])) freshAdapter ''user.ts'')
 \<and> \<not> success (fst (validateContract (posixEnv (contractFile
       [PropertyAssignment ''__proto__'' (ObjectLiteralExpression
          [PropertyAssignment ''path'' (StringLiteral ''/users''),
           PropertyAssignment ''response'' (ObjectLiteralExpression
             [PropertyAssignment ''200'' (ObjectLiteralExpression [])])]),
        PropertyAssignment ''method'' (StringLiteral '''')])) freshAdapter ''user.ts''))
 \<and> filter isMissingFieldError (collectedErrors (fst (validateContract (posixEnv (contractFile
       [PropertyAssignment ''__proto__'' (ObjectLiteralExpression
          [PropertyAssignment ''path'' (StringLiteral ''/users''),
           PropertyAssignment ''response'' (ObjectLiteralExpression
             [PropertyAssignment ''200'' (ObjectLiteralExpression [])])]),
        PropertyAssignment ''method'' (StringLiteral '''')])) freshAdapter ''user.ts'')))
     = [''Missing required field: method'']"
proof -
  let ?e = "posixEnv (contractFile
       [PropertyAssignment ''__proto__'' (ObjectLiteralExpression
          [PropertyAssignment ''path'' (StringLiteral ''/users''),
           PropertyAssignment ''response'' (ObjectLiteralExpression
             [PropertyAssignment ''200'' (ObjectLiteralExpression [])])]),
        PropertyAssignment ''method'' (StringLiteral '''')])"
  let ?c = "contractOf ?e freshAdapter ''user.ts''"
  have t: "truthy ?c" by code_simp
  have f: "''method'' \<in> set requiredFields" by code_simp
  have m: "\<not> truthy (getField ?c ''method'')" by code_simp
  have u: "checksComplete ?e ?c" by code_simp
  have v: "map missingFieldMessage (filter (\<lambda>field. \<not> truthy (getField ?c field)) requiredFields)
             = [''Missing required field: method'']"
    by code_simp
  from f m have ex: "\<exists>field \<in> set requiredFields. \<not> truthy (getField ?c field)"
    by blast
  show ?thesis
    using missing_required_fields [OF t ex] t f m u v by simp
qed

subsection \<open>The keys of the response mapping\<close>

text \<open>
  When the checks run to their end, the errors about a response that is a truthy value of
  type object are: the single error that the response object must have at least one status
  code when the mapping has no own key; otherwise exactly one error for each key that
  \<^verbatim>\<open>parseInt(key, 10)\<close> does not read as an integer from 100 to 599
  (\<open>invalidStatusCode_iff\<close>), in key order, and so none when every key is read as one.
\<close>

lemma response_key_errors:
  assumes "truthy (contractOf e a p)"
    and "truthy (getField (contractOf e a p) ''response'')"
    and "typeof (getField (contractOf e a p) ''response'') = ''object''"
    and "checksComplete e (contractOf e a p)"
  shows "filter isResponseError (collectedErrors (fst (validateContract e a p)))
         = (if objectKeys (getField (contractOf e a p) ''response'') = []
            then [''Response object must have at least one status code'']
            else map invalidStatusMessage
                   (filter invalidStatusCode (objectKeys (getField (contractOf e a p) ''response''))))"
proof -
  let ?c = "contractOf e a p"
  from assms(4) obtain methodErrs pathErrs authErrs warns where me: "methodErrors e ?c = Inr methodErrs"
    and pe: "pathErrors ?c = Inr pathErrs"
    and ae: "authErrors ?c = Inr authErrs"
    and cc: "contractChecks e ?c =
         Inr (requiredFieldErrors ?c @ methodErrs @ pathErrs @ responseErrors ?c @ authErrs, warns)"
    by (rule contractChecks_complete)
  have "filter isResponseError (collectedErrors (fst (validateContract e a p))) = responseErrors ?c"
    by (simp add: validateContract_errors [OF assms(1)] cc response_of_checks [OF me pe ae assms(2)]
          del: filter_append)
  with assms(2,3) show ?thesis
    by (simp add: responseErrors_def)
qed

text \<open>
  Claim C2. Every key of a non-empty response object that does not parse as an integer from
  100 to 599 is to get an error of its own. The code loses that error on a contract whose
  path is the number 42, whose method is \<^verbatim>\<open>get\<close> and whose response has the single key
  \<^verbatim>\<open>abc\<close>: the path check calls \<^verbatim>\<open>startsWith\<close> on the number without testing its type
  (the checks of the response, the roles and the scopes test the type first), the call
  throws before the response is looked at, and the \<^verbatim>\<open>catch\<close> block returns its own error
  alone. The result carries no error about the key \<^verbatim>\<open>abc\<close>.
\<close>

theorem response_key_error_lost:
  "getField (contractOf (posixEnv (contractFile
       [PropertyAssignment ''path'' (NumericLiteral 42),
        PropertyAssignment ''method'' (StringLiteral ''get''),
        PropertyAssignment ''response'' (ObjectLiteralExpression
          [PropertyAssignment ''abc'' (ObjectLiteralExpression [])])])) freshAdapter ''user.ts'')
     ''response'' = JObj [(''abc'', JObj [])]
 \<and> parseInt10 ''abc'' = NaN
 \<and> fst (validateContract (posixEnv (contractFile
       [PropertyAssignment ''path'' (NumericLiteral 42),
        PropertyAssignment ''method'' (StringLiteral ''get''),
        PropertyAssignment ''response'' (ObjectLiteralExpression
          [PropertyAssignment ''abc'' (ObjectLiteralExpression [])])])) freshAdapter ''user.ts'')
     = \<lparr>success = False,
        errors = Some [''Failed to validate contract: contract.path.startsWith is not a function''],
        warnings = None, details = None\<rparr>"
  by code_simp

subsection \<open>Falsy fields\<close>

text \<open>
  A path that is falsy never gets the error about the leading slash; and when the checks
  run to their end, each of \<^verbatim>\<open>path\<close>, \<^verbatim>\<open>method\<close> and \<^verbatim>\<open>response\<close> whose value is
  falsy is reported as a missing required field.
\<close>

lemma falsy_field_is_missing:
  assumes "truthy (contractOf e a p)"
  shows "(\<not> truthy (getField (contractOf e a p) ''path'')
          \<longrightarrow> filter isInvalidPathError (collectedErrors (fst (validateContract e a p))) = [])
       \<and> (\<forall>field \<in> set requiredFields.
            \<not> truthy (getField (contractOf e a p) field) \<and> checksComplete e (contractOf e a p)
            \<longrightarrow> missingFieldMessage field \<in> set (collectedErrors (fst (validateContract e a p))))"
proof -
  let ?c = "contractOf e a p"
  let ?r = "fst (validateContract e a p)"
  have no_path_error: "filter isInvalidPathError (collectedErrors ?r) = []"
    if falsy: "\<not> truthy (getField ?c ''path'')"
  proof (cases "contractChecks e ?c")
    case (Inl err)
    have "\<not> isInvalidPathError (''Failed to validate contract: '' @ message err)"
      by (rule not_invalid_path) (simp add: prefix_def)
    with Inl show ?thesis
      by (simp add: validateContract_errors [OF assms])
  next
    case (Inr res)
    then obtain errs warns where res: "contractChecks e ?c = Inr (errs, warns)"
      by (cases res) simp
    then obtain methodErrs pathErrs authErrs where me: "methodErrors e ?c = Inr methodErrs"
      and pe: "pathErrors ?c = Inr pathErrs"
      and ae: "authErrors ?c = Inr authErrs"
      and errs: "errs = requiredFieldErrors ?c @ methodErrs @ pathErrs @ responseErrors ?c @ authErrs"
      by (rule contractChecks_Inr)
    from falsy pe have "pathErrs = []"
      by (simp add: pathErrors_def)
    moreover have "filter isInvalidPathError methodErrs = []"
      using methodErrors_start [OF me] not_invalid_path by (intro filter_none) blast
    moreover have "filter isInvalidPathError (requiredFieldErrors ?c) = []"
      using requiredFieldErrors_start [of ?c] not_invalid_path by (intro filter_none) blast
    moreover have "filter isInvalidPathError (responseErrors ?c) = []"
      using responseErrors_cases [of ?c] not_invalid_path by (intro filter_none) blast
    moreover have "filter isInvalidPathError authErrs = []"
      using authErrors_start [OF ae] not_invalid_path by (intro filter_none) blast
    ultimately show ?thesis
      by (simp add: validateContract_errors [OF assms] res errs)
  qed
  have reported: "missingFieldMessage field \<in> set (collectedErrors ?r)"
    if "field \<in> set requiredFields" "\<not> truthy (getField ?c field)" "checksComplete e ?c" for field
  proof -
    from that(3) obtain methodErrs pathErrs authErrs warns where
      cc: "contractChecks e ?c =
           Inr (requiredFieldErrors ?c @ methodErrs @ pathErrs @ responseErrors ?c @ authErrs, warns)"
      by (rule contractChecks_complete)
    show ?thesis
      using requiredFieldErrors_member [OF that(1,2)]
      by (simp add: validateContract_errors [OF assms] cc)
  qed
  show ?thesis
    using no_path_error reported by blast
qed

text \<open>
  Claim C9. A contract whose path is present but is the empty string is to be reported with
  \<^verbatim>\<open>Missing required field: path\<close>. The code loses that error on a contract with the
  empty path, the method \<^verbatim>\<open>get\<close>, a response for 200 and a \<^verbatim>\<open>null\<close> element in
  \<^verbatim>\<open>auth.authorization.claims\<close>: the missing field is collected first, then the loop over
  the claims reads \<^verbatim>\<open>userClaimPath\<close> from \<^verbatim>\<open>null\<close> without a test, the read throws, and
  the \<^verbatim>\<open>catch\<close> block returns its own error alone.
\<close>

theorem falsy_path_error_lost:
  "getField (contractOf (posixEnv (contractFile
       [PropertyAssignment ''path'' (StringLiteral ''''),
        PropertyAssignment ''method'' (StringLiteral ''get''),
        PropertyAssignment ''response'' (ObjectLiteralExpression
          [PropertyAssignment ''200'' (ObjectLiteralExpression [])]),
        PropertyAssignment ''auth'' (ObjectLiteralExpression
          [PropertyAssignment ''authorization'' (ObjectLiteralExpression
             [PropertyAssignment ''claims'' (ArrayLiteralExpression [NullKeyword])])])]))
     freshAdapter ''user.ts'') ''path'' = JStr ''''
 \<and> fst (validateContract (posixEnv (contractFile
       [PropertyAssignment ''path'' (StringLiteral ''''),
        PropertyAssignment ''method'' (StringLiteral ''get''),
        PropertyAssignment ''response'' (ObjectLiteralExpression
          [PropertyAssignment ''200'' (ObjectLiteralExpression [])]),
        PropertyAssignment ''auth'' (ObjectLiteralExpression
          [PropertyAssignment ''authorization'' (ObjectLiteralExpression
             [PropertyAssignment ''claims'' (ArrayLiteralExpression [NullKeyword])])])]))
     freshAdapter ''user.ts'')
     = \<lparr>success = False,
        errors = Some [''Failed to validate contract: Cannot read properties of null (reading ''
                       @ [CHR 0x27] @ ''userClaimPath'' @ [CHR 0x27] @ '')''],
        warnings = None, details = None\<rparr>"
  by code_simp

subsection \<open>The checks on a request\<close>

lemma destructureRequest_object:
  "request \<noteq> JUndefined \<Longrightarrow> request \<noteq> JNull \<Longrightarrow>
     destructureRequest request
       = Inr (getField request ''params'', getField request ''query'', getField request ''body'')"
  by (cases request) simp_all

lemma pathParamErrors_isl: "isl (pathParamErrors c params) = (\<not> pathIsUsable c)"
  by (cases "getField c ''path''") (auto simp: pathParamErrors_def pathIsUsable_def)

lemma requestChecks_complete:
  assumes "request \<noteq> JUndefined" and "request \<noteq> JNull" and "pathIsUsable c"
  obtains paramErrs det where "pathParamErrors c (getField request ''params'') = Inr paramErrs"
    and "requestChecks c request =
           Inr (containerErrors ''Path'' (getField c ''params'') (getField request ''params'')
                @ containerErrors ''Query'' (getField c ''query'') (getField request ''query'')
                @ paramErrs,
                bodyWarnings c (getField request ''body''), det)"
proof -
  from assms(3) have "\<not> isl (pathParamErrors c (getField request ''params''))"
    by (simp add: pathParamErrors_isl)
  then obtain paramErrs where "pathParamErrors c (getField request ''params'') = Inr paramErrs"
    by (cases "pathParamErrors c (getField request ''params'')") auto
  then show thesis
    using that assms(1,2) by (simp add: requestChecks_def destructureRequest_object)
qed

lemma containerErrors_start:
  "\<forall>m \<in> set (containerErrors what declared given). \<not> isMissingParamError m"
  if "what = ''Path'' \<or> what = ''Query''"
  using that by (auto simp: containerErrors_def isMissingParamError_def)

lemma pathParamErrors_string:
  assumes "getField c ''path'' = JStr s" and "truthy params"
  shows "pathParamErrors c params
         = Inr (map missingParamMessage
                  (filter (\<lambda>param. readsUndefined params param) (matchPathParams s)))"
  using assms by (cases s) (simp_all add: pathParamErrors_def)

lemma missingParam_all:
  "filter isMissingParamError (map missingParamMessage xs) = map missingParamMessage xs"
  by (induction xs) (simp_all add: isMissingParamError_def missingParamMessage_def)

subsection \<open>Path parameters of a request\<close>

text \<open>
  The test for a path parameter is \<^verbatim>\<open>params[param] === undefined\<close>. For every extracted
  contract whose path is a string and every request with a truthy \<^verbatim>\<open>params\<close>, the errors
  that start with \<^verbatim>\<open>Missing required path parameter\<close> are exactly one per placeholder of
  the path, from left to right, that reads as \<^verbatim>\<open>undefined\<close> from \<^verbatim>\<open>params\<close>.
\<close>

lemma missing_path_parameters:
  assumes "truthy (contractOf e a p)"
    and "getField (contractOf e a p) ''path'' = JStr s"
    and "request \<noteq> JUndefined" and "request \<noteq> JNull"
    and "truthy (getField request ''params'')"
  shows "filter isMissingParamError
           (collectedErrors (fst (validateRequestAgainstContract e a p request)))
         = map missingParamMessage
             (filter (\<lambda>param. readsUndefined (getField request ''params'') param)
                (matchPathParams s))"
proof -
  let ?c = "contractOf e a p"
  from assms(2) have usable: "pathIsUsable ?c"
    by (simp add: pathIsUsable_def)
  from assms(3,4) usable obtain paramErrs det
    where pe: "pathParamErrors ?c (getField request ''params'') = Inr paramErrs"
      and rc: "requestChecks ?c request =
           Inr (containerErrors ''Path'' (getField ?c ''params'') (getField request ''params'')
                @ containerErrors ''Query'' (getField ?c ''query'') (getField request ''query'')
                @ paramErrs,
                bodyWarnings ?c (getField request ''body''), det)"
    by (rule requestChecks_complete)
  from pe have paramErrs: "paramErrs = map missingParamMessage
         (filter (\<lambda>param. readsUndefined (getField request ''params'') param) (matchPathParams s))"
    by (simp add: pathParamErrors_string [OF assms(2,5)])
  have "filter isMissingParamError
          (containerErrors ''Path'' (getField ?c ''params'') (getField request ''params'')) = []"
    by (intro filter_none containerErrors_start) simp
  moreover have "filter isMissingParamError
          (containerErrors ''Query'' (getField ?c ''query'') (getField request ''query'')) = []"
    by (intro filter_none containerErrors_start) simp
  ultimately show ?thesis
    using validateRequestAgainstContract_result [OF assms(1), of request]
    by (simp add: rc paramErrs missingParam_all)
qed

text \<open>
  Claim C4. Every placeholder of the path whose key is absent from the \<^verbatim>\<open>params\<close> of the
  request is to get the error \<^verbatim>\<open>Missing required path parameter\<close>. The code misses the
  placeholders that are named like a member of \<^verbatim>\<open>Object.prototype\<close>: for the path
  \<^verbatim>\<open>/items/:constructor\<close> and the request \<^verbatim>\<open>{ params: {} }\<close>, the key
  \<^verbatim>\<open>constructor\<close> is absent from \<^verbatim>\<open>params\<close>, but \<^verbatim>\<open>params['constructor']\<close> reads the
  inherited function, which is not \<^verbatim>\<open>undefined\<close>: no error is reported and the request
  is accepted.
\<close>

theorem inherited_name_not_reported:
  "getField (contractOf (posixEnv (contractFile
       [PropertyAssignment ''path'' (StringLiteral ''/items/:constructor'')]))
     freshAdapter ''user.ts'') ''path'' = JStr ''/items/:constructor''
 \<and> matchPathParams ''/items/:constructor'' = [''constructor'']
 \<and> objectKeys (getField (JObj [(''params'', JObj [])]) ''params'') = []
 \<and> success (fst (validateRequestAgainstContract (posixEnv (contractFile
       [PropertyAssignment ''path'' (StringLiteral ''/items/:constructor'')]))
     freshAdapter ''user.ts'' (JObj [(''params'', JObj [])])))
 \<and> errors (fst (validateRequestAgainstContract (posixEnv (contractFile
       [PropertyAssignment ''path'' (StringLiteral ''/items/:constructor'')]))
     freshAdapter ''user.ts'' (JObj [(''params'', JObj [])]))) = None"
  by code_simp

subsection \<open>Warnings about the body of a request\<close>

text \<open>
  The warnings about the body: with a contract that declares a body and a request that has
  one, the warning about a GET request when the method is \<^verbatim>\<open>get\<close>; otherwise the warning
  about the missing body when the method is \<^verbatim>\<open>post\<close>, \<^verbatim>\<open>put\<close> or \<^verbatim>\<open>patch\<close> and the
  request has no body.
\<close>

lemma body_warnings:
  assumes "truthy (contractOf e a p)"
    and "request \<noteq> JUndefined" and "request \<noteq> JNull"
    and "pathIsUsable (contractOf e a p)"
  shows "collectedWarnings (fst (validateRequestAgainstContract e a p request))
         = (if truthy (getField (contractOf e a p) ''body'') \<and> truthy (getField request ''body'')
            then (if getField (contractOf e a p) ''method'' = JStr ''get''
                  then [''GET requests should not have a body''] else [])
            else (case bodyMethod (getField (contractOf e a p) ''method'') of
                    Some m \<Rightarrow>
                      if \<not> truthy (getField request ''body'')
                      then [toUpperCase m @ '' request is missing a body''] else []
                  | None \<Rightarrow> []))"
proof -
  let ?c = "contractOf e a p"
  from assms(2,3,4) obtain paramErrs det
    where rc: "requestChecks ?c request =
           Inr (containerErrors ''Path'' (getField ?c ''params'') (getField request ''params'')
                @ containerErrors ''Query'' (getField ?c ''query'') (getField request ''query'')
                @ paramErrs,
                bodyWarnings ?c (getField request ''body''), det)"
    by (rule requestChecks_complete)
  have "collectedWarnings (fst (validateRequestAgainstContract e a p request))
          = bodyWarnings ?c (getField request ''body'')"
    using validateRequestAgainstContract_result [OF assms(1), of request]
    by (simp add: rc)
  then show ?thesis
    by (simp add: bodyWarnings_def)
qed

text \<open>
  Claim C6. A request that carries a body is to get a warning when the method of the
  contract is \<^verbatim>\<open>get\<close>. The code misses it on the repository's example contract, a
  \<^verbatim>\<open>get\<close> that declares no body schema: the test of the method sits inside the branch
  \<^verbatim>\<open>contract.body && body\<close>, so that a request with the parameter \<^verbatim>\<open>userId\<close> and a body
  is accepted without any warning. (The warning about a missing body on \<^verbatim>\<open>post\<close>,
  \<^verbatim>\<open>put\<close> and \<^verbatim>\<open>patch\<close> does not depend on the contract's body.)
\<close>

theorem get_body_not_flagged:
  "getField (contractOf userEnv freshAdapter ''user.ts'') ''method'' = JStr ''get''
 \<and> truthy (getField (JObj [(''params'', JObj [(''userId'', JStr ''abc'')]),
                         (''body'', JObj [(''name'', JStr ''x'')])]) ''body'')
 \<and> success (fst (validateRequestAgainstContract userEnv freshAdapter ''user.ts''
       (JObj [(''params'', JObj [(''userId'', JStr ''abc'')]),
              (''body'', JObj [(''name'', JStr ''x'')])])))
 \<and> warnings (fst (validateRequestAgainstContract userEnv freshAdapter ''user.ts''
       (JObj [(''params'', JObj [(''userId'', JStr ''abc'')]),
              (''body'', JObj [(''name'', JStr ''x'')])]))) = None"
  by code_simp

end
